theory Spec2Isabelle
  imports Main
begin

section \<open>JavaScript strings\<close>

text \<open>
  Strings are lists of \<^typ>\<open>char\<close>. \<^verbatim>\<open>isSpace\<close> is the class \<^verbatim>\<open>\s\<close> of the regular
  expressions and of \<^verbatim>\<open>String.prototype.trim\<close>, restricted to the characters a
  \<^typ>\<open>char\<close> can hold (tab, line feed, vertical tab, form feed, carriage return, space,
  no-break space).
\<close>

definition isSpace :: "char \<Rightarrow> bool" where
  "isSpace c = (c \<in> set [CHR 0x09, CHR 0x0A, CHR 0x0B, CHR 0x0C, CHR 0x0D, CHR 0x20, CHR 0xA0])"

definition trim :: "string \<Rightarrow> string" where
  "trim s = rev (dropWhile isSpace (rev (dropWhile isSpace s)))"

text \<open>\<^verbatim>\<open>s.replace(/\s+/g, " ")\<close>: every maximal run of white space becomes one space.\<close>

function collapseSpaces :: "string \<Rightarrow> string" where
  "collapseSpaces [] = []"
| "collapseSpaces (c # cs) =
     (if isSpace c then CHR '' '' # collapseSpaces (dropWhile isSpace cs)
      else c # collapseSpaces cs)"
  by pat_completeness auto
termination
  by (relation "measure length") (auto simp: less_Suc_eq_le length_dropWhile_le)

text \<open>\<^verbatim>\<open>s || null\<close> on a string, and \<^verbatim>\<open>v || null\<close> on a string that may be undefined.\<close>

definition orNull :: "string \<Rightarrow> string option" where
  "orNull s = (if s = [] then None else Some s)"

definition orNullOpt :: "string option \<Rightarrow> string option" where
  "orNullOpt v = (case v of None \<Rightarrow> None | Some s \<Rightarrow> orNull s)"

text \<open>\<^verbatim>\<open>!v\<close> on a value of type \<^verbatim>\<open>string | null\<close>: null and the empty string are falsy.\<close>

definition falsy :: "string option \<Rightarrow> bool" where
  "falsy v = (case v of None \<Rightarrow> True | Some s \<Rightarrow> s = [])"

fun startsWith :: "string \<Rightarrow> string \<Rightarrow> bool" where
  "startsWith s [] = True"
| "startsWith [] (p # ps) = False"
| "startsWith (c # cs) (p # ps) = (c = p \<and> startsWith cs ps)"

fun includesStr :: "string \<Rightarrow> string \<Rightarrow> bool" where
  "includesStr [] p = (p = [])"
| "includesStr (c # cs) p = (startsWith (c # cs) p \<or> includesStr cs p)"

text \<open>\<^verbatim>\<open>[...new Set(xs)]\<close>: the distinct elements in the order of their first occurrence.\<close>

definition uniqueInOrder :: "'a list \<Rightarrow> 'a list" where
  "uniqueInOrder xs = foldl (\<lambda>acc x. if x \<in> set acc then acc else acc @ [x]) [] xs"

text \<open>Template rendering of a number, \<^verbatim>\<open>`${n}`\<close>, for a non-negative integer.\<close>

function showNat :: "nat \<Rightarrow> string" where
  "showNat n =
     (if n < 10 then [''0123456789'' ! n]
      else showNat (n div 10) @ [''0123456789'' ! (n mod 10)])"
  by pat_completeness auto
termination
  by (relation "measure id") auto

subsection \<open>The e-mail pattern\<close>

text \<open>
  \<^verbatim>\<open>/\b[A-Za-z0-9._%+-]+@[A-Za-z0-9.-]+\.[A-Za-z]{2,}\b/g\<close>, matched as
  \<^verbatim>\<open>bodyText.match(emailRegex) || []\<close>.

  \<^verbatim>\<open>emailAt prev s\<close> is the length of the match that starts at the head of \<open>s\<close>, where
  \<open>prev\<close> is the character before it. The greedy local part is the whole run of local
  characters (a shorter one would be followed by a local character, never by \<^verbatim>\<open>@\<close>).
  The domain part backtracks from the longest prefix of the run of domain characters to
  the shortest (\<^verbatim>\<open>domainSplit\<close>); after its dot the letters are the whole run of letters
  (a shorter one would end between two letters, where \<^verbatim>\<open>\b\<close> fails).
\<close>

definition charBetween :: "char \<Rightarrow> char \<Rightarrow> char \<Rightarrow> bool" where
  "charBetween lo hi c = ((of_char lo :: nat) \<le> of_char c \<and> (of_char c :: nat) \<le> of_char hi)"

definition isAlpha :: "char \<Rightarrow> bool" where
  "isAlpha c = (charBetween CHR ''A'' CHR ''Z'' c \<or> charBetween CHR ''a'' CHR ''z'' c)"

definition isDigit :: "char \<Rightarrow> bool" where
  "isDigit c = charBetween CHR ''0'' CHR ''9'' c"

definition isWord :: "char option \<Rightarrow> bool" where
  "isWord v = (case v of None \<Rightarrow> False | Some c \<Rightarrow> isAlpha c \<or> isDigit c \<or> c = CHR ''_'')"

definition isLocalChar :: "char \<Rightarrow> bool" where
  "isLocalChar c = (isAlpha c \<or> isDigit c \<or> c \<in> set ''._%+-'')"

definition isDomainChar :: "char \<Rightarrow> bool" where
  "isDomainChar c = (isAlpha c \<or> isDigit c \<or> c \<in> set ''.-'')"

definition headOption :: "'a list \<Rightarrow> 'a option" where
  "headOption xs = (case xs of [] \<Rightarrow> None | x # _ \<Rightarrow> Some x)"

definition tldAt :: "string \<Rightarrow> char option \<Rightarrow> nat \<Rightarrow> nat option" where
  "tldAt run nxt k =
     (if k < length run \<and> run ! k = CHR ''.''
      then (let m = length (takeWhile isAlpha (drop (Suc k) run));
                follow = (if Suc k + m < length run then Some (run ! (Suc k + m)) else nxt)
            in if 2 \<le> m \<and> \<not> isWord follow then Some m else None)
      else None)"

fun domainSplit :: "string \<Rightarrow> char option \<Rightarrow> nat \<Rightarrow> nat option" where
  "domainSplit run nxt 0 = None"
| "domainSplit run nxt (Suc k) =
     (case tldAt run nxt (Suc k) of
        Some m \<Rightarrow> Some (Suc k + 1 + m)
      | None \<Rightarrow> domainSplit run nxt k)"

definition emailAt :: "char option \<Rightarrow> string \<Rightarrow> nat option" where
  "emailAt prev s =
     (if isWord prev = isWord (headOption s) then None
      else (let localPart = takeWhile isLocalChar s
            in if localPart = [] then None
               else (case dropWhile isLocalChar s of
                       [] \<Rightarrow> None
                     | c # r \<Rightarrow>
                         if c \<noteq> CHR ''@'' then None
                         else (let run = takeWhile isDomainChar r;
                                   nxt = headOption (dropWhile isDomainChar r)
                               in case domainSplit run nxt (length run) of
                                    None \<Rightarrow> None
                                  | Some d \<Rightarrow> Some (length localPart + 1 + d)))))"

function scanEmails :: "char option \<Rightarrow> string \<Rightarrow> string list" where
  "scanEmails prev [] = []"
| "scanEmails prev (c # cs) =
     (case emailAt prev (c # cs) of
        None \<Rightarrow> scanEmails (Some c) cs
      | Some n \<Rightarrow>
          take n (c # cs) # scanEmails (Some (last (take n (c # cs)))) (drop n (c # cs)))"
  by pat_completeness auto
termination
  by (relation "measure (\<lambda>(prev, s). length s)")
     (auto simp: emailAt_def Let_def split: if_splits list.splits option.splits)

definition matchEmails :: "string \<Rightarrow> string list" where
  "matchEmails bodyText = scanEmails None bodyText"

section \<open>Thrown values\<close>

text \<open>
  What a \<^verbatim>\<open>catch\<close> clause can receive: an \<^verbatim>\<open>AxiosError\<close> (with its optional
  \<^verbatim>\<open>code\<close> and optional \<^verbatim>\<open>response.status\<close>), any other \<^verbatim>\<open>Error\<close>, or a value that is
  not an \<^verbatim>\<open>Error\<close> (kept as its \<^verbatim>\<open>String(value)\<close> rendering). A computation that may
  throw returns \<open>thrown + 'a\<close>.
\<close>

record AxiosError =
  code :: "string option"
  responseStatus :: "nat option"
  message :: string

datatype thrown = Axios AxiosError | Error string | NonError string

text \<open>\<^verbatim>\<open>error instanceof Error ? error.message : String(error)\<close>\<close>

definition errorMessageOf :: "thrown \<Rightarrow> string" where
  "errorMessageOf e = (case e of Axios a \<Rightarrow> message a | Error m \<Rightarrow> m | NonError s \<Rightarrow> s)"

section \<open>Parsed documents and the entity recogniser\<close>

text \<open>
  The cheerio handle \<^verbatim>\<open>$\<close> is a function from a selector to the selection it matches,
  or to the error it throws. An element carries its text, its attributes and its own
  \<^verbatim>\<open>find\<close> (here \<^verbatim>\<open>elemFind\<close>), which yields the texts of the descendants a selector
  matches.
\<close>

record element =
  elemText :: string
  elemAttrs :: "(string \<times> string) list"
  elemFind :: "string \<Rightarrow> thrown + string list"

type_synonym CheerioAPI = "string \<Rightarrow> thrown + element list"

text \<open>\<^verbatim>\<open>.text()\<close> of a selection joins the texts of its elements; \<^verbatim>\<open>.attr(a)\<close> reads
  the first element and is undefined on an empty selection or a missing attribute;
  \<^verbatim>\<open>.first()\<close> keeps the first element.\<close>

definition selText :: "element list \<Rightarrow> string" where
  "selText els = concat (map elemText els)"

definition selAttr :: "string \<Rightarrow> element list \<Rightarrow> string option" where
  "selAttr a els = (case els of [] \<Rightarrow> None | e # _ \<Rightarrow> map_of (elemAttrs e) a)"

definition selFirst :: "element list \<Rightarrow> element list" where
  "selFirst els = take 1 els"

text \<open>What \<^verbatim>\<open>nlp(bodyText)\<close> of the compromise library yields through
  \<^verbatim>\<open>.organizations()\<close>, \<^verbatim>\<open>.places()\<close> and \<^verbatim>\<open>.people()\<close>.\<close>

record entities =
  organizations :: "string list"
  places :: "string list"
  persons :: "string list"

record NerData =
  ner_companyName :: "string option"
  ner_hqLocation :: "string option"
  people :: "string list"
  emails :: "string list"

text \<open>
  The processor's own state: the process-wide \<^verbatim>\<open>nerCache\<close>, and a count of the calls
  of \<^verbatim>\<open>extractWithNER\<close> made so far (a ghost field, there to state when the third layer
  runs).
\<close>

record nerState =
  nerCache :: "string \<rightharpoonup> NerData"
  nerCalls :: nat

section \<open>Persistence: jobs, items and the progress aggregator\<close>

text \<open>
  \<^verbatim>\<open>scraping.repository.ts\<close>. The two tables are lists of rows. The wall-clock columns
  (\<^verbatim>\<open>createdAt\<close>, \<^verbatim>\<open>updatedAt\<close>, \<^verbatim>\<open>startedAt\<close>, \<^verbatim>\<open>finishedAt\<close>), \<^verbatim>\<open>userId\<close> and the
  free-form \<^verbatim>\<open>rawData\<close> blob are left out: no operation below reads them.
  A nullable column is an \<open>option\<close>.
\<close>

record CompanyData =
  companyName :: "string option"
  website :: "string option"
  industry :: "string option"
  headcountRange :: "string option"
  hqLocation :: "string option"

record Contact =
  name :: string
  title :: string
  email :: string

record ScrapingItemEntity = CompanyData +
  item_id :: string
  jobId :: string
  url :: string
  status :: string
  lastError :: "string option"
  contacts :: "Contact list option"

record ScrapingJobEntity =
  job_id :: string
  job_status :: string
  totalUrls :: nat
  processedUrls :: nat
  failedUrls :: nat

record database =
  scrapingJobs :: "ScrapingJobEntity list"
  scrapingItems :: "ScrapingItemEntity list"

text \<open>
  The body of \<^verbatim>\<open>updateJobProgress\<close> when both of its statements succeed: select the
  job's items, count, derive the status, and update every job row with that id.
\<close>

definition updateJobProgress_db :: "string \<Rightarrow> database \<Rightarrow> database" where
  "updateJobProgress_db jid d =
     (let items = filter (\<lambda>item. jobId item = jid) (scrapingItems d);
          completedCount =
            length (filter (\<lambda>item. status item = ''completed'' \<or> status item = ''failed'') items);
          failedCount = length (filter (\<lambda>item. status item = ''failed'') items);
          totalCount = length items;
          jobStatus =
            (if completedCount = totalCount \<and> totalCount > 0
             then (if failedCount = totalCount then ''failed'' else ''completed'')
             else ''processing'')
      in d\<lparr>scrapingJobs :=
           map (\<lambda>j. if job_id j = jid
                     then j\<lparr>processedUrls := completedCount, failedUrls := failedCount,
                            job_status := jobStatus\<rparr>
                     else j)
               (scrapingJobs d)\<rparr>)"


text \<open>The body of \<^verbatim>\<open>updateItemStatus\<close> when its statement succeeds:
  \<^verbatim>\<open>{status, updatedAt, ...data}\<close> is written to every item row with that id; \<open>upd\<close> is
  the effect of the fields of \<^verbatim>\<open>data\<close>.\<close>

definition updateItemStatus_db ::
  "string \<Rightarrow> string \<Rightarrow> (ScrapingItemEntity \<Rightarrow> ScrapingItemEntity) \<Rightarrow> database \<Rightarrow> database" where
  "updateItemStatus_db itemId newStatus upd d =
     d\<lparr>scrapingItems :=
         map (\<lambda>item. if item_id item = itemId then upd (item\<lparr>status := newStatus\<rparr>) else item)
             (scrapingItems d)\<rparr>"

text \<open>
  The running system: the database, the processor's state, and the log of the repository
  calls made so far. The environment fixes what the outside does: \<^verbatim>\<open>dbFault n\<close> is the
  error with which the repository call number \<open>n\<close> fails (the repository logs it and
  rethrows it, leaving the tables as they were), \<^verbatim>\<open>axiosGet\<close> the outcome of the request,
  \<^verbatim>\<open>cheerioLoad\<close> the parsed document, \<^verbatim>\<open>nlp\<close> the entity recogniser.
\<close>

datatype repoCall = UpdateItemStatus string string | UpdateJobProgress string

record world =
  db :: database
  ner :: nerState
  repoCalls :: "repoCall list"

record env =
  dbFault :: "nat \<Rightarrow> thrown option"
  axiosGet :: "string \<Rightarrow> thrown + string"
  cheerioLoad :: "string \<Rightarrow> CheerioAPI"
  nlp :: "string \<Rightarrow> thrown + entities"

definition repoCall ::
  "env \<Rightarrow> repoCall \<Rightarrow> (database \<Rightarrow> database) \<Rightarrow> world \<Rightarrow> (thrown + unit) \<times> world" where
  "repoCall e c effect w =
     (case dbFault e (length (repoCalls w)) of
        Some err \<Rightarrow> (Inl err, w\<lparr>repoCalls := repoCalls w @ [c]\<rparr>)
      | None \<Rightarrow> (Inr (), w\<lparr>repoCalls := repoCalls w @ [c], db := effect (db w)\<rparr>))"

definition updateItemStatus ::
  "env \<Rightarrow> string \<Rightarrow> string \<Rightarrow> (ScrapingItemEntity \<Rightarrow> ScrapingItemEntity) \<Rightarrow> world
     \<Rightarrow> (thrown + unit) \<times> world" where
  "updateItemStatus e itemId newStatus upd w =
     repoCall e (UpdateItemStatus itemId newStatus) (updateItemStatus_db itemId newStatus upd) w"

definition updateJobProgress :: "env \<Rightarrow> string \<Rightarrow> world \<Rightarrow> (thrown + unit) \<times> world" where
  "updateJobProgress e jid w = repoCall e (UpdateJobProgress jid) (updateJobProgress_db jid) w"

section \<open>Extraction: the three-layer waterfall\<close>

text \<open>\<^verbatim>\<open>scraping.processor.ts\<close>: the tables \<^verbatim>\<open>SELECTORS\<close> and \<^verbatim>\<open>FALLBACK_SELECTORS\<close>.\<close>

definition COMPANY_NAME :: string where \<open>COMPANY_NAME = ''h1.company-name''\<close>
definition COMPANY_WEBSITE :: string where \<open>COMPANY_WEBSITE = ''a.company-website''\<close>
definition INDUSTRY :: string where \<open>INDUSTRY = ''span.industry''\<close>
definition HEADCOUNT :: string where \<open>HEADCOUNT = ''span.headcount''\<close>
definition LOCATION :: string where \<open>LOCATION = ''span.location''\<close>
definition CONTACT_CARD :: string where \<open>CONTACT_CARD = ''.contact-card''\<close>
definition CONTACT_NAME :: string where \<open>CONTACT_NAME = ''.contact-name''\<close>
definition CONTACT_TITLE :: string where \<open>CONTACT_TITLE = ''.contact-title''\<close>
definition CONTACT_EMAIL :: string where \<open>CONTACT_EMAIL = ''.contact-email''\<close>

definition FALLBACK_COMPANY_NAME :: "string list" where
  \<open>FALLBACK_COMPANY_NAME =
     [''h1'', ''title'', ''meta[property="og:site_name"]'', ''meta[name="application-name"]'',
      ''.company-title'', ''.business-name'', ''[itemtype*="Organization"] [itemprop="name"]'']\<close>

definition FALLBACK_WEBSITE :: "string list" where
  \<open>FALLBACK_WEBSITE = [''a[href*="http"]'', ''link[rel="canonical"]'', ''meta[property="og:url"]'']\<close>

definition FALLBACK_INDUSTRY :: "string list" where
  \<open>FALLBACK_INDUSTRY =
     [''.category'', ''.sector'', ''[itemprop="industry"]'', ''meta[name="keywords"]'']\<close>

definition FALLBACK_HEADCOUNT :: "string list" where
  \<open>FALLBACK_HEADCOUNT =
     [''.employees'', ''.team-size'', ''.staff-count'', ''[itemprop="numberOfEmployees"]'']\<close>

definition FALLBACK_LOCATION :: "string list" where
  \<open>FALLBACK_LOCATION =
     [''.address'', ''.location'', ''.city'', ''[itemprop="address"]'', ''[itemprop="location"]'',
      ''meta[name="geo.position"]'']\<close>

text \<open>
  \<^verbatim>\<open>tryFallbackSelectors\<close>. \<^verbatim>\<open>fallbackValue\<close> is the chain of branches that picks how a
  selector is read; a selector whose query throws is skipped (the inner \<^verbatim>\<open>catch\<close>).
\<close>

definition fallbackValue :: "string \<Rightarrow> element list \<Rightarrow> string option" where
  "fallbackValue selector els =
     (if startsWith selector ''meta'' then selAttr ''content'' els
      else if selector = ''title'' then Some (selText els)
      else if startsWith selector ''link'' then selAttr ''href'' els
      else if includesStr selector ''[href'' then selAttr ''href'' (selFirst els)
      else Some (selText (selFirst els)))"

fun tryFallbackSelectors :: "CheerioAPI \<Rightarrow> string list \<Rightarrow> string option" where
  "tryFallbackSelectors S [] = None"
| "tryFallbackSelectors S (selector # rest) =
     (case S selector of
        Inl err \<Rightarrow> tryFallbackSelectors S rest
      | Inr els \<Rightarrow>
          (case fallbackValue selector els of
             None \<Rightarrow> tryFallbackSelectors S rest
           | Some v \<Rightarrow>
               if v \<noteq> [] \<and> length (trim v) > 0 \<and> length (trim v) < 500
               then Some (trim v)
               else tryFallbackSelectors S rest))"

text \<open>\<^verbatim>\<open>extractWithNER\<close>, with the cache it reads and writes.\<close>

definition MAX_TEXT_LENGTH :: nat where
  "MAX_TEXT_LENGTH = 100000"

definition emptyResult :: NerData where
  "emptyResult = \<lparr>ner_companyName = None, ner_hqLocation = None, people = [], emails = []\<rparr>"

definition extractWithNER ::
  "(string \<Rightarrow> thrown + entities) \<Rightarrow> CheerioAPI \<Rightarrow> string \<Rightarrow> nerState
     \<Rightarrow> (thrown + NerData) \<times> nerState" where
  "extractWithNER engine S cacheKey st0 =
     (let st = st0\<lparr>nerCalls := Suc (nerCalls st0)\<rparr>
      in case nerCache st cacheKey of
           Some cached \<Rightarrow> (Inr cached, st)
         | None \<Rightarrow>
             (case S ''body'' of
                Inl err \<Rightarrow> (Inl err, st)
              | Inr els \<Rightarrow>
                  (let bodyText = trim (collapseSpaces (selText els))
                   in if bodyText = [] \<or> length bodyText < 50
                      then (Inr emptyResult,
                            st\<lparr>nerCache := (nerCache st)(cacheKey \<mapsto> emptyResult)\<rparr>)
                      else (let capped =
                                  (if length bodyText > MAX_TEXT_LENGTH
                                   then take MAX_TEXT_LENGTH bodyText else bodyText)
                            in case engine capped of
                                 Inl err \<Rightarrow> (Inl err, st)
                               | Inr doc \<Rightarrow>
                                   (let result =
                                          \<lparr>ner_companyName =
                                             List.find (\<lambda>org. length org > 1 \<and> length org < 100)
                                               (organizations doc),
                                           ner_hqLocation =
                                             List.find (\<lambda>p. length p > 1 \<and> length p < 100)
                                               (places doc),
                                           people = persons doc,
                                           emails = matchEmails capped\<rparr>
                                    in (Inr result,
                                        st\<lparr>nerCache := (nerCache st)(cacheKey \<mapsto> result)\<rparr>))))))"

text \<open>
  \<^verbatim>\<open>parseCompanyData\<close>, one definition per layer of its \<^verbatim>\<open>try\<close> block;
  \<^verbatim>\<open>parseCompanyData_try\<close> is the block, \<^verbatim>\<open>parseCompanyData\<close> adds the \<^verbatim>\<open>catch\<close>.
\<close>

definition layer1 :: "CheerioAPI \<Rightarrow> thrown + CompanyData" where
  "layer1 S =
     (case S COMPANY_NAME of Inl err \<Rightarrow> Inl err | Inr nameSel \<Rightarrow>
     (case S COMPANY_WEBSITE of Inl err \<Rightarrow> Inl err | Inr siteSel \<Rightarrow>
     (case S INDUSTRY of Inl err \<Rightarrow> Inl err | Inr industrySel \<Rightarrow>
     (case S HEADCOUNT of Inl err \<Rightarrow> Inl err | Inr headcountSel \<Rightarrow>
     (case S LOCATION of Inl err \<Rightarrow> Inl err | Inr locationSel \<Rightarrow>
        Inr \<lparr>companyName = orNull (trim (selText nameSel)),
             website = orNullOpt (selAttr ''href'' siteSel),
             industry = orNull (trim (selText industrySel)),
             headcountRange = orNull (trim (selText headcountSel)),
             hqLocation = orNull (trim (selText locationSel))\<rparr>)))))"

definition layer2 :: "CheerioAPI \<Rightarrow> CompanyData \<Rightarrow> CompanyData" where
  "layer2 S cd =
     \<lparr>companyName =
        (if falsy (companyName cd) then tryFallbackSelectors S FALLBACK_COMPANY_NAME
         else companyName cd),
      website =
        (if falsy (website cd) then tryFallbackSelectors S FALLBACK_WEBSITE else website cd),
      industry =
        (if falsy (industry cd) then tryFallbackSelectors S FALLBACK_INDUSTRY else industry cd),
      headcountRange =
        (if falsy (headcountRange cd) then tryFallbackSelectors S FALLBACK_HEADCOUNT
         else headcountRange cd),
      hqLocation =
        (if falsy (hqLocation cd) then tryFallbackSelectors S FALLBACK_LOCATION
         else hqLocation cd)\<rparr>"

definition layer3 ::
  "(string \<Rightarrow> thrown + entities) \<Rightarrow> CheerioAPI \<Rightarrow> string \<Rightarrow> CompanyData \<Rightarrow> nerState
     \<Rightarrow> (thrown + CompanyData) \<times> nerState" where
  "layer3 engine S itemId cd st =
     (if falsy (companyName cd) \<or> falsy (hqLocation cd)
      then (case extractWithNER engine S itemId st of
              (Inl err, st') \<Rightarrow> (Inl err, st')
            | (Inr nerData, st') \<Rightarrow>
                (Inr (cd\<lparr>companyName :=
                           (if falsy (companyName cd) \<and> \<not> falsy (ner_companyName nerData)
                            then ner_companyName nerData else companyName cd),
                         hqLocation :=
                           (if falsy (hqLocation cd) \<and> \<not> falsy (ner_hqLocation nerData)
                            then ner_hqLocation nerData else hqLocation cd)\<rparr>),
                 st'))
      else (Inr cd, st))"

definition parseCompanyData_try ::
  "(string \<Rightarrow> thrown + entities) \<Rightarrow> CheerioAPI \<Rightarrow> string \<Rightarrow> nerState
     \<Rightarrow> (thrown + CompanyData) \<times> nerState" where
  "parseCompanyData_try engine S itemId st =
     (case layer1 S of
        Inl err \<Rightarrow> (Inl err, st)
      | Inr cd \<Rightarrow> layer3 engine S itemId (layer2 S cd) st)"

definition nullCompanyData :: CompanyData where
  "nullCompanyData =
     \<lparr>companyName = None, website = None, industry = None, headcountRange = None,
      hqLocation = None\<rparr>"

definition parseCompanyData ::
  "(string \<Rightarrow> thrown + entities) \<Rightarrow> CheerioAPI \<Rightarrow> string \<Rightarrow> nerState
     \<Rightarrow> CompanyData \<times> nerState" where
  "parseCompanyData engine S itemId st =
     (case parseCompanyData_try engine S itemId st of
        (Inl err, st') \<Rightarrow> (nullCompanyData, st')
      | (Inr cd, st') \<Rightarrow> (cd, st'))"

text \<open>
  \<^verbatim>\<open>parseContacts\<close>. \<^verbatim>\<open>contactOfCard\<close> is the callback of \<^verbatim>\<open>.each\<close>,
  \<^verbatim>\<open>structuredContacts\<close> the iteration, \<^verbatim>\<open>pairContacts\<close> the \<^verbatim>\<open>for\<close> loop that pairs
  people with distinct e-mail addresses.
\<close>

definition contactOfCard :: "element \<Rightarrow> thrown + Contact option" where
  "contactOfCard el =
     (case elemFind el CONTACT_NAME of Inl err \<Rightarrow> Inl err | Inr nameTexts \<Rightarrow>
     (case elemFind el CONTACT_TITLE of Inl err \<Rightarrow> Inl err | Inr titleTexts \<Rightarrow>
     (case elemFind el CONTACT_EMAIL of Inl err \<Rightarrow> Inl err | Inr emailTexts \<Rightarrow>
        (let nm = trim (concat nameTexts);
             ttl = trim (concat titleTexts);
             eml = trim (concat emailTexts)
         in Inr (if nm \<noteq> [] \<and> ttl \<noteq> [] \<and> eml \<noteq> []
                 then Some \<lparr>name = nm, title = ttl, email = eml\<rparr>
                 else None)))))"

fun structuredContacts :: "element list \<Rightarrow> Contact list \<Rightarrow> thrown + Contact list" where
  "structuredContacts [] acc = Inr acc"
| "structuredContacts (el # els) acc =
     (case contactOfCard el of
        Inl err \<Rightarrow> Inl err
      | Inr None \<Rightarrow> structuredContacts els acc
      | Inr (Some c) \<Rightarrow> structuredContacts els (acc @ [c]))"

function pairContacts ::
  "nat \<Rightarrow> nat \<Rightarrow> string list \<Rightarrow> string list \<Rightarrow> Contact list \<Rightarrow> Contact list" where
  "pairContacts i maxMatches ppl uniqueEmails acc =
     (if i < maxMatches
      then (let person = ppl ! i;
                eml = uniqueEmails ! i
            in pairContacts (Suc i) maxMatches ppl uniqueEmails
                 (if person \<noteq> [] \<and> length person > 1 \<and> length person < 100
                  then acc @ [\<lparr>name = person, title = ''Unknown'', email = eml\<rparr>]
                  else acc))
      else acc)"
  by pat_completeness auto
termination
  by (relation "measure (\<lambda>(i, maxMatches, ppl, uniqueEmails, acc). maxMatches - i)") auto

declare pairContacts.simps [simp del]

definition parseContacts_try ::
  "(string \<Rightarrow> thrown + entities) \<Rightarrow> CheerioAPI \<Rightarrow> string \<Rightarrow> nerState
     \<Rightarrow> (thrown + Contact list option) \<times> nerState" where
  "parseContacts_try engine S itemId st =
     (case S CONTACT_CARD of
        Inl err \<Rightarrow> (Inl err, st)
      | Inr cards \<Rightarrow>
          (case structuredContacts cards [] of
             Inl err \<Rightarrow> (Inl err, st)
           | Inr structured \<Rightarrow>
               if length structured = 0
               then (case extractWithNER engine S itemId st of
                       (Inl err, st') \<Rightarrow> (Inl err, st')
                     | (Inr nerData, st') \<Rightarrow>
                         (let found =
                                (if length (people nerData) > 0 \<and> length (emails nerData) > 0
                                 then (let uniqueEmails = uniqueInOrder (emails nerData);
                                           maxMatches =
                                             min (length (people nerData)) (length uniqueEmails)
                                       in pairContacts 0 maxMatches (people nerData)
                                            uniqueEmails structured)
                                 else structured)
                          in (Inr (if length found > 0 then Some found else None), st')))
               else (Inr (Some structured), st)))"

definition parseContacts ::
  "(string \<Rightarrow> thrown + entities) \<Rightarrow> CheerioAPI \<Rightarrow> string \<Rightarrow> nerState
     \<Rightarrow> Contact list option \<times> nerState" where
  "parseContacts engine S itemId st =
     (case parseContacts_try engine S itemId st of
        (Inl err, st') \<Rightarrow> (None, st')
      | (Inr found, st') \<Rightarrow> (found, st'))"


section \<open>The task executor\<close>

text \<open>\<^verbatim>\<open>fetchHtml\<close>: the request, and the classification of its failure.\<close>

definition axiosCodeMessage :: "AxiosError \<Rightarrow> string" where
  "axiosCodeMessage a =
     (if code a = Some ''ECONNABORTED'' then ''Request timeout''
      else if code a = Some ''ECONNREFUSED'' then ''Connection refused''
      else if code a = Some ''ENOTFOUND'' then ''DNS resolution failed''
      else if code a = Some ''ECONNRESET'' then ''Connection reset by server''
      else message a)"

definition fetchErrorMessage :: "thrown \<Rightarrow> string" where
  "fetchErrorMessage error =
     (case error of
        Axios a \<Rightarrow>
          (case responseStatus a of
             Some statusCode \<Rightarrow>
               if statusCode \<noteq> 0 \<and> statusCode \<ge> 400 then ''HTTP '' @ showNat statusCode
               else axiosCodeMessage a
           | None \<Rightarrow> axiosCodeMessage a)
      | Error m \<Rightarrow> m
      | NonError v \<Rightarrow> ''Unknown error'')"

definition fetchHtml :: "env \<Rightarrow> string \<Rightarrow> thrown + string" where
  "fetchHtml e u =
     (case axiosGet e u of
        Inr responseData \<Rightarrow> Inr responseData
      | Inl error \<Rightarrow> Inl (Error (fetchErrorMessage error)))"

text \<open>
  \<^verbatim>\<open>processItem\<close>: \<^verbatim>\<open>processItem_try\<close> is its \<^verbatim>\<open>try\<close> block, \<^verbatim>\<open>processItem\<close> adds the
  \<^verbatim>\<open>catch\<close> and the \<^verbatim>\<open>finally\<close>, whose own \<^verbatim>\<open>try\<close>/\<^verbatim>\<open>catch\<close> drops the outcome of
  \<^verbatim>\<open>updateJobProgress\<close>. The pause of \<^verbatim>\<open>applyRateLimit\<close> has no effect on the state.
\<close>

definition processItem_try :: "env \<Rightarrow> string \<Rightarrow> string \<Rightarrow> world \<Rightarrow> (thrown + unit) \<times> world" where
  "processItem_try e itemId u w =
     (case updateItemStatus e itemId ''processing'' (\<lambda>item. item) w of
        (Inl err, w1) \<Rightarrow> (Inl err, w1)
      | (Inr started, w1) \<Rightarrow>
          (case fetchHtml e u of
             Inl err \<Rightarrow> (Inl err, w1)
           | Inr html \<Rightarrow>
               (let S = cheerioLoad e html;
                    (companyData, st1) = parseCompanyData (nlp e) S itemId (ner w1);
                    (found, st2) = parseContacts (nlp e) S itemId st1;
                    st3 = st2\<lparr>nerCache := (nerCache st2)(itemId := None)\<rparr>
                in updateItemStatus e itemId ''completed''
                     (\<lambda>item. item\<lparr>companyName := companyName companyData,
                                   website := website companyData,
                                   industry := industry companyData,
                                   headcountRange := headcountRange companyData,
                                   hqLocation := hqLocation companyData,
                                   contacts := found,
                                   lastError := None\<rparr>)
                     (w1\<lparr>ner := st3\<rparr>))))"

definition processItem ::
  "env \<Rightarrow> string \<Rightarrow> string \<Rightarrow> string \<Rightarrow> world \<Rightarrow> (thrown + unit) \<times> world" where
  "processItem e itemId u jid w =
     (let (tried, w1) = processItem_try e itemId u w;
          (handled, w2) =
            (case tried of
               Inr done \<Rightarrow> (Inr (), w1)
             | Inl error \<Rightarrow>
                 updateItemStatus e itemId ''failed''
                   (\<lambda>item. item\<lparr>lastError := Some (errorMessageOf error)\<rparr>) w1);
          (progress, w3) = updateJobProgress e jid w2
      in (handled, w3))"

text \<open>\<^verbatim>\<open>process\<close>: the queue's entry point logs and rethrows what \<^verbatim>\<open>processItem\<close> throws.\<close>

record ScrapeJobData =
  data_itemId :: string
  data_url :: string
  data_jobId :: string

definition process :: "env \<Rightarrow> ScrapeJobData \<Rightarrow> world \<Rightarrow> (thrown + unit) \<times> world" where
  "process e job w =
     (case processItem e (data_itemId job) (data_url job) (data_jobId job) w of
        (Inr done, w') \<Rightarrow> (Inr (), w')
      | (Inl error, w') \<Rightarrow> (Inl error, w'))"

section \<open>Notions used to state the properties\<close>

text \<open>The item snapshot of a job, and the number of positions of a list that satisfy a
  predicate.\<close>

definition itemsOfJob :: "string \<Rightarrow> database \<Rightarrow> ScrapingItemEntity list" where
  "itemsOfJob jid d = filter (\<lambda>item. jobId item = jid) (scrapingItems d)"

definition countWhere :: "('a \<Rightarrow> bool) \<Rightarrow> 'a list \<Rightarrow> nat" where
  "countWhere P xs = card {i. i < length xs \<and> P (xs ! i)}"

text \<open>
  The length band of the name filter, the contact built from a (person, e-mail) pair, and
  the invariant of the cache: no cached e-mail address is empty.
\<close>

definition plausibleName :: "string \<Rightarrow> bool" where
  "plausibleName person = (length person > 1 \<and> length person < 100)"

definition unknownTitleContact :: "string \<times> string \<Rightarrow> Contact" where
  "unknownTitleContact pe = \<lparr>name = fst pe, title = ''Unknown'', email = snd pe\<rparr>"

definition cacheWellFormed :: "nerState \<Rightarrow> bool" where
  "cacheWellFormed st = (\<forall>key cached. nerCache st key = Some cached \<longrightarrow> [] \<notin> set (emails cached))"


text \<open>
  The classification of a failed fetch in the order the specification gives it: time-out,
  refused connection, failed name resolution, reset by the peer, then the status code if
  one is present, then the raw message of the transport. \<^verbatim>\<open>specMessageOf\<close> reads the three
  inputs off a thrown value.
\<close>

definition specErrorMessage :: "string option \<Rightarrow> nat option \<Rightarrow> string \<Rightarrow> string" where
  "specErrorMessage errorCode statusCode rawMessage =
     (if errorCode = Some ''ECONNABORTED'' then ''Request timeout''
      else if errorCode = Some ''ECONNREFUSED'' then ''Connection refused''
      else if errorCode = Some ''ENOTFOUND'' then ''DNS resolution failed''
      else if errorCode = Some ''ECONNRESET'' then ''Connection reset by server''
      else (case statusCode of
              Some statusValue \<Rightarrow> ''HTTP '' @ showNat statusValue
            | None \<Rightarrow> rawMessage))"

definition specMessageOf :: "thrown \<Rightarrow> string" where
  "specMessageOf error =
     (case error of
        Axios a \<Rightarrow> specErrorMessage (code a) (responseStatus a) (message a)
      | Error m \<Rightarrow> specErrorMessage None None m
      | NonError v \<Rightarrow> specErrorMessage None None v)"

text \<open>
  The errors with which \<^verbatim>\<open>axios.get\<close> rejects under
  \<^verbatim>\<open>validateStatus: (status) => status < 400\<close>: an \<^verbatim>\<open>Error\<close> object, which for an
  \<^verbatim>\<open>AxiosError\<close> either carries no response (time-out, refused connection, failed name
  resolution, reset, ...) or carries the response whose status the validator refused, at
  least 400, with an error code that is none of the four network codes.
\<close>

definition deliverable :: "thrown \<Rightarrow> bool" where
  "deliverable error =
     (case error of
        Axios a \<Rightarrow>
          (case responseStatus a of
             None \<Rightarrow> True
           | Some statusValue \<Rightarrow>
               400 \<le> statusValue \<and>
               code a \<notin> {Some ''ECONNABORTED'', Some ''ECONNREFUSED'', Some ''ENOTFOUND'',
                           Some ''ECONNRESET''})
      | Error m \<Rightarrow> True
      | NonError v \<Rightarrow> False)"

text \<open>Concrete inputs for the examples: an environment in which nothing fails, a job
  without items, and a job with three items of which two completed and one failed.\<close>

definition plainDocument :: CheerioAPI where
  "plainDocument selector = Inr []"

definition quietEnv :: env where
  "quietEnv =
     \<lparr>dbFault = (\<lambda>n. None),
      axiosGet = (\<lambda>u. Inr ''<html></html>''),
      cheerioLoad = (\<lambda>html. plainDocument),
      nlp = (\<lambda>t. Inr \<lparr>organizations = [], places = [], persons = []\<rparr>)\<rparr>"

definition freshJob :: "nat \<Rightarrow> ScrapingJobEntity" where
  "freshJob n =
     \<lparr>job_id = ''job-1'', job_status = ''pending'', totalUrls = n, processedUrls = 0,
      failedUrls = 0\<rparr>"

definition itemIn :: "string \<Rightarrow> string \<Rightarrow> ScrapingItemEntity" where
  "itemIn itemId itemStatus =
     \<lparr>companyName = None, website = None, industry = None, headcountRange = None,
      hqLocation = None, item_id = itemId, jobId = ''job-1'', url = ''http://example.test/'',
      status = itemStatus, lastError = None, contacts = None\<rparr>"

definition freshNer :: nerState where
  "freshNer = \<lparr>nerCache = Map.empty, nerCalls = 0\<rparr>"

definition emptyJobWorld :: world where
  "emptyJobWorld =
     \<lparr>db = \<lparr>scrapingJobs = [freshJob 0], scrapingItems = []\<rparr>, ner = freshNer, repoCalls = []\<rparr>"

definition mixedJobWorld :: world where
  "mixedJobWorld =
     \<lparr>db = \<lparr>scrapingJobs = [freshJob 3],
            scrapingItems =
              [itemIn ''item-1'' ''completed'', itemIn ''item-2'' ''failed'',
               itemIn ''item-3'' ''completed'']\<rparr>,
      ner = freshNer, repoCalls = []\<rparr>"

text \<open>A job with one pending item; environments in which the first repository call
  fails, in which the first two fail, and in which the request fails (an unreachable host,
  a time-out, a page that is not found).\<close>

definition pendingWorld :: world where
  "pendingWorld =
     \<lparr>db = \<lparr>scrapingJobs = [freshJob 1], scrapingItems = [itemIn ''item-1'' ''pending'']\<rparr>,
      ner = freshNer, repoCalls = []\<rparr>"

definition dbDownOnce :: env where
  "dbDownOnce =
     quietEnv\<lparr>dbFault := (\<lambda>n. if n = 0 then Some (Error ''connection terminated'') else None)\<rparr>"

definition dbDownTwice :: env where
  "dbDownTwice =
     quietEnv\<lparr>dbFault :=
                (\<lambda>n. if n = 0 then Some (Error ''connection terminated'')
                      else if n = 1 then Some (Error ''connection still down'')
                      else None)\<rparr>"

definition hostNotFound :: AxiosError where
  "hostNotFound =
     \<lparr>code = Some ''ENOTFOUND'', responseStatus = None,
      message = ''getaddrinfo ENOTFOUND nowhere.test''\<rparr>"

definition requestTimedOut :: AxiosError where
  "requestTimedOut =
     \<lparr>code = Some ''ECONNABORTED'', responseStatus = None,
      message = ''timeout of 30000ms exceeded''\<rparr>"

definition notFoundResponse :: AxiosError where
  "notFoundResponse =
     \<lparr>code = Some ''ERR_BAD_REQUEST'', responseStatus = Some 404,
      message = ''Request failed with status code 404''\<rparr>"

definition unreachableEnv :: env where
  "unreachableEnv = quietEnv\<lparr>axiosGet := (\<lambda>u. Inl (Axios hostNotFound))\<rparr>"

definition notFoundEnv :: env where
  "notFoundEnv = quietEnv\<lparr>axiosGet := (\<lambda>u. Inl (Axios notFoundResponse))\<rparr>"

text \<open>Documents for the examples: a page with two contact cards, the second without an
  e-mail address; and an unstructured page whose body is prose, with the entities a
  recogniser may report for it.\<close>

definition textElement :: "string \<Rightarrow> element" where
  "textElement t = \<lparr>elemText = t, elemAttrs = [], elemFind = (\<lambda>selector. Inr [])\<rparr>"

definition contactCard :: "string \<Rightarrow> string \<Rightarrow> string \<Rightarrow> element" where
  "contactCard n t m =
     \<lparr>elemText = n @ t @ m, elemAttrs = [],
      elemFind =
        (\<lambda>selector.
            if selector = ''.contact-name'' then Inr [n]
            else if selector = ''.contact-title'' then Inr [t]
            else if selector = ''.contact-email'' then (if m = [] then Inr [] else Inr [m])
            else Inr [])\<rparr>"

definition cardsDocument :: CheerioAPI where
  "cardsDocument selector =
     (if selector = ''.contact-card''
      then Inr [contactCard '' Jane Doe '' ''CTO'' ''jane@acme.com'', contactCard ''John Roe'' ''CFO'' []]
      else Inr [])"

definition proseBody :: string where
  "proseBody =
     ''  Acme Corp is based in   San Francisco. Write to J or Jane Doe: info@acme.com, jane@acme.com, info@acme.com. ''"

definition proseText :: string where
  "proseText =
     ''Acme Corp is based in San Francisco. Write to J or Jane Doe: info@acme.com, jane@acme.com, info@acme.com.''"

definition proseDocument :: CheerioAPI where
  "proseDocument selector = (if selector = ''body'' then Inr [textElement proseBody] else Inr [])"

definition proseEngine :: "string \<Rightarrow> thrown + entities" where
  "proseEngine t =
     Inr \<lparr>organizations = [''Acme Corp''], places = [''San Francisco''],
          persons = [''J'', ''Jane Doe'']\<rparr>"

definition proseNer :: NerData where
  "proseNer =
     \<lparr>ner_companyName = Some ''Acme Corp'', ner_hqLocation = Some ''San Francisco'',
      people = [''J'', ''Jane Doe''],
      emails = [''info@acme.com'', ''jane@acme.com'', ''info@acme.com'']\<rparr>"

text \<open>A page with a structured company name, a title and prose; a recogniser that
  reports other entities; a recogniser and a document that throw.\<close>

definition acmeDocument :: CheerioAPI where
  "acmeDocument selector =
     (if selector = ''h1.company-name'' \<or> selector = ''h1'' then Inr [textElement '' Acme Corp '']
      else if selector = ''title'' then Inr [textElement ''Welcome to our site'']
      else if selector = ''body'' then Inr [textElement proseBody]
      else Inr [])"

definition otherEngine :: "string \<Rightarrow> thrown + entities" where
  "otherEngine t =
     Inr \<lparr>organizations = [''Globex Inc''], places = [''Springfield''], persons = []\<rparr>"

definition brokenEngine :: "string \<Rightarrow> thrown + entities" where
  "brokenEngine t = Inl (Error ''recogniser failed'')"

definition brokenDocument :: CheerioAPI where
  "brokenDocument selector = Inl (Error ''Unmatched selector'')"

definition brokenNlpEnv :: env where
  "brokenNlpEnv = quietEnv\<lparr>cheerioLoad := (\<lambda>html. acmeDocument), nlp := brokenEngine\<rparr>"

section \<open>Progress aggregation\<close>

lemma countWhere_filter: "countWhere P xs = length (filter P xs)"
  by (simp add: countWhere_def length_filter_conv_card)

lemma failed_le_processed:
  "length (filter (\<lambda>item. status item = ''failed'') xs)
     \<le> length (filter (\<lambda>item. status item = ''completed'' \<or> status item = ''failed'') xs)"
  by (induction xs) auto

lemma updateJobProgress_db_row:
  assumes "k < length (scrapingJobs d)" and "job_id (scrapingJobs d ! k) = jid"
  shows "scrapingJobs (updateJobProgress_db jid d) ! k =
           (scrapingJobs d ! k)
             \<lparr>processedUrls :=
                length (filter (\<lambda>item. status item = ''completed'' \<or> status item = ''failed'')
                          (itemsOfJob jid d)),
              failedUrls := length (filter (\<lambda>item. status item = ''failed'') (itemsOfJob jid d)),
              job_status :=
                (if length (filter (\<lambda>item. status item = ''completed'' \<or> status item = ''failed'')
                              (itemsOfJob jid d)) = length (itemsOfJob jid d)
                      \<and> length (itemsOfJob jid d) > 0
                 then (if length (filter (\<lambda>item. status item = ''failed'') (itemsOfJob jid d))
                            = length (itemsOfJob jid d)
                       then ''failed'' else ''completed'')
                 else ''processing'')\<rparr>"
  using assms by (simp add: updateJobProgress_db_def itemsOfJob_def Let_def)

lemma updateJobProgress_db_items:
  "scrapingItems (updateJobProgress_db jid d) = scrapingItems d"
  by (simp add: updateJobProgress_db_def Let_def)

lemma updateJobProgress_db_twice:
  "updateJobProgress_db jid (updateJobProgress_db jid d) = updateJobProgress_db jid d"
  by (simp add: updateJobProgress_db_def Let_def o_def cong: if_cong)

lemma repoCall_ok:
  "repoCall e c effect w = (Inr (), w') \<Longrightarrow>
     db w' = effect (db w) \<and> ner w' = ner w \<and> repoCalls w' = repoCalls w @ [c]"
  by (auto simp: repoCall_def split: option.splits)

lemma updateJobProgress_ok:
  "updateJobProgress e jid w = (Inr (), w') \<Longrightarrow> db w' = updateJobProgress_db jid (db w)"
  unfolding updateJobProgress_def using repoCall_ok by blast

text \<open>
  C1 (as amended). Let \<open>total\<close> be the number of items of the job in the snapshot. After a
  successful \<^verbatim>\<open>updateJobProgress(jobId)\<close> the job row keeps its id and its \<^verbatim>\<open>totalUrls\<close>,
  the items are untouched, \<^verbatim>\<open>processedUrls\<close> is the number of items whose status is
  completed or failed, \<^verbatim>\<open>failedUrls\<close> the number of failed items, and the status is
  completed iff processed = total and failed < total, failed iff processed = total = failed
  and total > 0, processing in every other case, the empty snapshot included.
\<close>

theorem updateJobProgress_derives_row:
  assumes "updateJobProgress e jid w = (Inr (), w')"
    and "k < length (scrapingJobs (db w))"
    and "job_id (scrapingJobs (db w) ! k) = jid"
  shows "scrapingItems (db w') = scrapingItems (db w) \<and>
         job_id (scrapingJobs (db w') ! k) = jid \<and>
         totalUrls (scrapingJobs (db w') ! k) = totalUrls (scrapingJobs (db w) ! k) \<and>
         processedUrls (scrapingJobs (db w') ! k) =
           countWhere (\<lambda>item. status item \<in> {''completed'', ''failed''}) (itemsOfJob jid (db w)) \<and>
         failedUrls (scrapingJobs (db w') ! k) =
           countWhere (\<lambda>item. status item = ''failed'') (itemsOfJob jid (db w)) \<and>
         (job_status (scrapingJobs (db w') ! k) = ''completed'') =
           (processedUrls (scrapingJobs (db w') ! k) = length (itemsOfJob jid (db w)) \<and>
            failedUrls (scrapingJobs (db w') ! k) < length (itemsOfJob jid (db w))) \<and>
         (job_status (scrapingJobs (db w') ! k) = ''failed'') =
           (processedUrls (scrapingJobs (db w') ! k) = length (itemsOfJob jid (db w)) \<and>
            failedUrls (scrapingJobs (db w') ! k) = length (itemsOfJob jid (db w)) \<and>
            0 < length (itemsOfJob jid (db w))) \<and>
         (job_status (scrapingJobs (db w') ! k) = ''processing'') =
           (processedUrls (scrapingJobs (db w') ! k) \<noteq> length (itemsOfJob jid (db w)) \<or>
            length (itemsOfJob jid (db w)) = 0)"
proof -
  let ?items = "itemsOfJob jid (db w)"
  have dbw: "db w' = updateJobProgress_db jid (db w)"
    using assms(1) by (rule updateJobProgress_ok)
  have row: "scrapingJobs (db w') ! k =
           (scrapingJobs (db w) ! k)
             \<lparr>processedUrls :=
                length (filter (\<lambda>item. status item = ''completed'' \<or> status item = ''failed'') ?items),
              failedUrls := length (filter (\<lambda>item. status item = ''failed'') ?items),
              job_status :=
                (if length (filter (\<lambda>item. status item = ''completed'' \<or> status item = ''failed'')
                              ?items) = length ?items \<and> length ?items > 0
                 then (if length (filter (\<lambda>item. status item = ''failed'') ?items) = length ?items
                       then ''failed'' else ''completed'')
                 else ''processing'')\<rparr>"
    unfolding dbw using updateJobProgress_db_row[OF assms(2,3)] .
  have items: "scrapingItems (db w') = scrapingItems (db w)"
    unfolding dbw by (rule updateJobProgress_db_items)
  have fl: "length (filter (\<lambda>item. status item = ''failed'') ?items) \<le> length ?items"
    by simp
  have fp: "length (filter (\<lambda>item. status item = ''failed'') ?items)
     \<le> length (filter (\<lambda>item. status item = ''completed'' \<or> status item = ''failed'') ?items)"
    by (rule failed_le_processed)
  show ?thesis
    unfolding row countWhere_filter using items assms(3) fl fp
    by (auto simp: countWhere_filter)
qed

text \<open>Witness of C1: the job with two completed items and one failed item ends completed,
  with 3 processed and 1 failed.\<close>

theorem updateJobProgress_derives_row_witness:
  "updateJobProgress quietEnv ''job-1'' mixedJobWorld
     = (Inr (), snd (updateJobProgress quietEnv ''job-1'' mixedJobWorld)) \<and>
   0 < length (scrapingJobs (db mixedJobWorld)) \<and>
   job_id (scrapingJobs (db mixedJobWorld) ! 0) = ''job-1'' \<and>
   length (itemsOfJob ''job-1'' (db mixedJobWorld)) = 3 \<and>
   processedUrls (scrapingJobs (db (snd (updateJobProgress quietEnv ''job-1'' mixedJobWorld))) ! 0) = 3 \<and>
   failedUrls (scrapingJobs (db (snd (updateJobProgress quietEnv ''job-1'' mixedJobWorld))) ! 0) = 1 \<and>
   countWhere (\<lambda>item. status item = ''failed'') (itemsOfJob ''job-1'' (db mixedJobWorld)) = 1 \<and>
   job_status (scrapingJobs (db (snd (updateJobProgress quietEnv ''job-1'' mixedJobWorld))) ! 0)
     = ''completed''"
proof -
  have h1: "updateJobProgress quietEnv ''job-1'' mixedJobWorld
              = (Inr (), snd (updateJobProgress quietEnv ''job-1'' mixedJobWorld))"
    by (simp add: updateJobProgress_def repoCall_def quietEnv_def mixedJobWorld_def)
  have h2: "0 < length (scrapingJobs (db mixedJobWorld))"
    by (simp add: mixedJobWorld_def)
  have h3: "job_id (scrapingJobs (db mixedJobWorld) ! 0) = ''job-1''"
    by (simp add: mixedJobWorld_def freshJob_def)
  have n: "length (itemsOfJob ''job-1'' (db mixedJobWorld)) = 3"
    by (simp add: itemsOfJob_def mixedJobWorld_def itemIn_def)
  have v: "processedUrls (scrapingJobs (db (snd (updateJobProgress quietEnv ''job-1'' mixedJobWorld))) ! 0) = 3
        \<and> failedUrls (scrapingJobs (db (snd (updateJobProgress quietEnv ''job-1'' mixedJobWorld))) ! 0) = 1"
    by (simp add: updateJobProgress_def repoCall_def quietEnv_def mixedJobWorld_def
          updateJobProgress_db_def freshJob_def itemIn_def)
  from updateJobProgress_derives_row[OF h1 h2 h3] h1 h2 h3 n v show ?thesis
    by simp
qed

text \<open>
  C1 as stated fails on the empty snapshot: there processed = total = failed = 0, and the
  status written is processing, not failed (the guard \<^verbatim>\<open>totalCount > 0\<close>).
\<close>

theorem updateJobProgress_empty_snapshot_counterexample:
  "fst (updateJobProgress quietEnv ''job-1'' emptyJobWorld) = Inr () \<and>
   itemsOfJob ''job-1'' (db emptyJobWorld) = [] \<and>
   scrapingJobs (db (snd (updateJobProgress quietEnv ''job-1'' emptyJobWorld)))
     = [\<lparr>job_id = ''job-1'', job_status = ''processing'', totalUrls = 0, processedUrls = 0,
         failedUrls = 0\<rparr>] \<and>
   job_status (hd (scrapingJobs (db (snd (updateJobProgress quietEnv ''job-1'' emptyJobWorld)))))
     \<noteq> ''failed''"
  by (simp add: updateJobProgress_def repoCall_def quietEnv_def emptyJobWorld_def
        updateJobProgress_db_def freshJob_def itemsOfJob_def)

text \<open>
  C2. Running \<^verbatim>\<open>updateJobProgress\<close> a second time, with the items unchanged in between,
  leaves the database exactly as the first run left it: the job row is the same.
\<close>

theorem updateJobProgress_idempotent:
  assumes "updateJobProgress e jid w = (Inr (), w1)"
    and "updateJobProgress e' jid w1 = (Inr (), w2)"
  shows "db w2 = db w1"
proof -
  have "db w1 = updateJobProgress_db jid (db w)"
    using assms(1) by (rule updateJobProgress_ok)
  moreover have "db w2 = updateJobProgress_db jid (db w1)"
    using assms(2) by (rule updateJobProgress_ok)
  ultimately show ?thesis
    by (simp add: updateJobProgress_db_twice)
qed

theorem updateJobProgress_idempotent_witness:
  "updateJobProgress quietEnv ''job-1'' mixedJobWorld
     = (Inr (), snd (updateJobProgress quietEnv ''job-1'' mixedJobWorld)) \<and>
   updateJobProgress quietEnv ''job-1'' (snd (updateJobProgress quietEnv ''job-1'' mixedJobWorld))
     = (Inr (), snd (updateJobProgress quietEnv ''job-1''
                       (snd (updateJobProgress quietEnv ''job-1'' mixedJobWorld)))) \<and>
   db (snd (updateJobProgress quietEnv ''job-1''
              (snd (updateJobProgress quietEnv ''job-1'' mixedJobWorld))))
     = db (snd (updateJobProgress quietEnv ''job-1'' mixedJobWorld))"
proof -
  have h1: "updateJobProgress quietEnv ''job-1'' mixedJobWorld
              = (Inr (), snd (updateJobProgress quietEnv ''job-1'' mixedJobWorld))"
    by (simp add: updateJobProgress_def repoCall_def quietEnv_def mixedJobWorld_def)
  have h2: "updateJobProgress quietEnv ''job-1''
              (snd (updateJobProgress quietEnv ''job-1'' mixedJobWorld))
            = (Inr (), snd (updateJobProgress quietEnv ''job-1''
                              (snd (updateJobProgress quietEnv ''job-1'' mixedJobWorld))))"
    by (simp add: updateJobProgress_def repoCall_def quietEnv_def mixedJobWorld_def)
  from updateJobProgress_idempotent[OF h1 h2] h1 h2 show ?thesis
    by simp
qed

section \<open>The task executor: exit paths and errors\<close>

lemma repoCall_log: "repoCalls (snd (repoCall e c effect w)) = repoCalls w @ [c]"
  by (simp add: repoCall_def split: option.splits)

lemma processItem_try_log:
  "repoCalls (snd (processItem_try e itemId u w)) = repoCalls w @ [UpdateItemStatus itemId ''processing'']
   \<or> repoCalls (snd (processItem_try e itemId u w)) = repoCalls w @ [UpdateItemStatus itemId ''processing'', UpdateItemStatus itemId ''completed'']"
  by (auto simp: processItem_try_def updateItemStatus_def repoCall_def Let_def
           split: prod.splits sum.splits option.splits)

lemma processItem_outcome:
  "fst (processItem e itemId u jid w) =
     (case dbFault e (length (repoCalls w)) of
        Some err \<Rightarrow>
          (case dbFault e (Suc (length (repoCalls w))) of Some err' \<Rightarrow> Inl err' | None \<Rightarrow> Inr ())
      | None \<Rightarrow>
          (case fetchHtml e u of
             Inl err \<Rightarrow>
               (case dbFault e (Suc (length (repoCalls w))) of
                  Some err' \<Rightarrow> Inl err' | None \<Rightarrow> Inr ())
           | Inr html \<Rightarrow>
               (case dbFault e (Suc (length (repoCalls w))) of
                  None \<Rightarrow> Inr ()
                | Some err \<Rightarrow>
                    (case dbFault e (Suc (Suc (length (repoCalls w)))) of
                       Some err' \<Rightarrow> Inl err' | None \<Rightarrow> Inr ()))))"
  by (simp add: processItem_def processItem_try_def updateItemStatus_def updateJobProgress_def
        repoCall_def Let_def case_prod_beta split: sum.splits option.splits)

lemma processItem_log:
  "repoCalls (snd (processItem e itemId u jid w)) =
     repoCalls w @
     (case dbFault e (length (repoCalls w)) of
        Some err \<Rightarrow>
          [UpdateItemStatus itemId ''processing'', UpdateItemStatus itemId ''failed'',
           UpdateJobProgress jid]
      | None \<Rightarrow>
          (case fetchHtml e u of
             Inl err \<Rightarrow>
               [UpdateItemStatus itemId ''processing'', UpdateItemStatus itemId ''failed'',
                UpdateJobProgress jid]
           | Inr html \<Rightarrow>
               (case dbFault e (Suc (length (repoCalls w))) of
                  None \<Rightarrow>
                    [UpdateItemStatus itemId ''processing'', UpdateItemStatus itemId ''completed'',
                     UpdateJobProgress jid]
                | Some err \<Rightarrow>
                    [UpdateItemStatus itemId ''processing'', UpdateItemStatus itemId ''completed'',
                     UpdateItemStatus itemId ''failed'', UpdateJobProgress jid])))"
  by (simp add: processItem_def processItem_try_def updateItemStatus_def updateJobProgress_def
        repoCall_def Let_def case_prod_beta split: sum.splits option.splits)

lemma processItem_fetch_failure_items:
  assumes "dbFault e (length (repoCalls w)) = None"
    and "axiosGet e u = Inl error"
    and "dbFault e (Suc (length (repoCalls w))) = None"
  shows "scrapingItems (db (snd (processItem e itemId u jid w))) =
           map (\<lambda>item. if item_id item = itemId
                        then item\<lparr>status := ''failed'', lastError := Some (fetchErrorMessage error)\<rparr>
                        else item)
               (scrapingItems (db w))"
  using assms
  by (simp add: processItem_def processItem_try_def updateItemStatus_def updateJobProgress_def
        repoCall_def Let_def fetchHtml_def updateItemStatus_db_def updateJobProgress_db_def
        errorMessageOf_def o_def case_prod_beta
        split: sum.splits option.splits cong: if_cong)


text \<open>
  C3. Whatever the environment does (the request, the parsing and each repository call
  may fail or succeed), the calls \<^verbatim>\<open>processItem\<close> adds to the log of repository calls end
  with \<^verbatim>\<open>updateJobProgress(jobId)\<close>, after calls of \<^verbatim>\<open>updateItemStatus\<close> only: it is
  invoked last on every exit path, normal or exceptional.
\<close>

theorem processItem_always_updates_progress:
  "\<exists>before. repoCalls (snd (processItem e itemId u jid w))
                = repoCalls w @ before @ [UpdateJobProgress jid] \<and>
             (\<forall>c \<in> set before. \<exists>s. c = UpdateItemStatus itemId s)"
proof -
  obtain tried w1 where t: "processItem_try e itemId u w = (tried, w1)"
    by (cases "processItem_try e itemId u w")
  obtain handled w2 where h: "(case tried of
               Inr done \<Rightarrow> (Inr (), w1)
             | Inl error \<Rightarrow>
                 updateItemStatus e itemId ''failed''
                   (\<lambda>item. item\<lparr>lastError := Some (errorMessageOf error)\<rparr>) w1) = (handled, w2)"
    by (cases "(case tried of
               Inr done \<Rightarrow> (Inr (), w1)
             | Inl error \<Rightarrow>
                 updateItemStatus e itemId ''failed''
                   (\<lambda>item. item\<lparr>lastError := Some (errorMessageOf error)\<rparr>) w1)")
  have r: "snd (processItem e itemId u jid w) = snd (updateJobProgress e jid w2)"
    by (simp add: processItem_def t h split: prod.splits)
  have l1: "\<exists>b1. repoCalls w1 = repoCalls w @ b1 \<and> (\<forall>c \<in> set b1. \<exists>s. c = UpdateItemStatus itemId s)"
    using processItem_try_log[of e itemId u w] t by auto
  have l2: "\<exists>b2. repoCalls w2 = repoCalls w1 @ b2 \<and> (\<forall>c \<in> set b2. \<exists>s. c = UpdateItemStatus itemId s)"
    using h by (cases tried) (auto simp: updateItemStatus_def repoCall_def split: option.splits)
  from l1 obtain b1 where b1: "repoCalls w1 = repoCalls w @ b1"
    "\<forall>c \<in> set b1. \<exists>s. c = UpdateItemStatus itemId s" by blast
  from l2 obtain b2 where b2: "repoCalls w2 = repoCalls w1 @ b2"
    "\<forall>c \<in> set b2. \<exists>s. c = UpdateItemStatus itemId s" by blast
  have "repoCalls (snd (processItem e itemId u jid w))
          = repoCalls w @ (b1 @ b2) @ [UpdateJobProgress jid]"
    unfolding r updateJobProgress_def repoCall_log by (simp add: b1 b2)
  moreover have "\<forall>c \<in> set (b1 @ b2). \<exists>s. c = UpdateItemStatus itemId s"
    using b1(2) b2(2) by auto
  ultimately show ?thesis by blast
qed


theorem processItem_always_updates_progress_witness:
  "(\<exists>before. repoCalls (snd (processItem quietEnv ''item-1'' ''http://example.test/'' ''job-1''
                                 pendingWorld))
               = repoCalls pendingWorld @ before @ [UpdateJobProgress ''job-1'']) \<and>
   repoCalls (snd (processItem quietEnv ''item-1'' ''http://example.test/'' ''job-1'' pendingWorld))
     = [UpdateItemStatus ''item-1'' ''processing'', UpdateItemStatus ''item-1'' ''completed'',
        UpdateJobProgress ''job-1''] \<and>
   repoCalls (snd (processItem dbDownTwice ''item-1'' ''http://example.test/'' ''job-1''
                     pendingWorld))
     = [UpdateItemStatus ''item-1'' ''processing'', UpdateItemStatus ''item-1'' ''failed'',
        UpdateJobProgress ''job-1'']"
proof -
  have "\<exists>before. repoCalls (snd (processItem quietEnv ''item-1'' ''http://example.test/'' ''job-1''
                                 pendingWorld))
               = repoCalls pendingWorld @ before @ [UpdateJobProgress ''job-1'']"
    using processItem_always_updates_progress
            [of quietEnv "''item-1''" "''http://example.test/''" "''job-1''" pendingWorld]
    by blast
  then show ?thesis
    by (simp add: processItem_log quietEnv_def dbDownTwice_def pendingWorld_def fetchHtml_def)
qed

lemma nth_in_suffix:
  "(\<exists>n. length xs \<le> n \<and> n < length (xs @ ys) \<and> (xs @ ys) ! n = c \<and> P n)
     = (\<exists>i<length ys. ys ! i = c \<and> P (length xs + i))"
proof
  assume "\<exists>n. length xs \<le> n \<and> n < length (xs @ ys) \<and> (xs @ ys) ! n = c \<and> P n"
  then obtain n where n: "length xs \<le> n" "n < length (xs @ ys)" "(xs @ ys) ! n = c" "P n"
    by blast
  then have "n - length xs < length ys" "ys ! (n - length xs) = c" "P (length xs + (n - length xs))"
    by (auto simp: nth_append)
  then show "\<exists>i<length ys. ys ! i = c \<and> P (length xs + i)"
    by blast
next
  assume "\<exists>i<length ys. ys ! i = c \<and> P (length xs + i)"
  then obtain i where "i < length ys" "ys ! i = c" "P (length xs + i)"
    by blast
  then have "length xs \<le> length xs + i \<and> length xs + i < length (xs @ ys)
      \<and> (xs @ ys) ! (length xs + i) = c \<and> P (length xs + i)"
    by (simp add: nth_append)
  then show "\<exists>n. length xs \<le> n \<and> n < length (xs @ ys) \<and> (xs @ ys) ! n = c \<and> P n"
    by blast
qed

lemma ex_less_3: "(\<exists>i<Suc (Suc (Suc 0)). Q i) = (Q 0 \<or> Q (Suc 0) \<or> Q (Suc (Suc 0)))"
  by (auto simp: less_Suc_eq)

lemma ex_less_4:
  "(\<exists>i<Suc (Suc (Suc (Suc 0))). Q i) = (Q 0 \<or> Q (Suc 0) \<or> Q (Suc (Suc 0)) \<or> Q (Suc (Suc (Suc 0))))"
  by (auto simp: less_Suc_eq)

text \<open>
  C9 (as amended). \<^verbatim>\<open>processItem\<close> throws an error exactly when its handler's call
  \<^verbatim>\<open>updateItemStatus(itemId, "failed", ...)\<close> was made and failed with that error; whatever
  \<^verbatim>\<open>processItem\<close> throws, \<^verbatim>\<open>process\<close> rethrows to the queue. So a persistence error of
  the calls that mark the item processing or completed is caught and handled as an item
  failure, and one of \<^verbatim>\<open>updateJobProgress\<close> is dropped.
\<close>

theorem processItem_throws_iff:
  "(fst (processItem e itemId u jid w) = Inl err) =
     (\<exists>n. length (repoCalls w) \<le> n \<and>
          n < length (repoCalls (snd (processItem e itemId u jid w))) \<and>
          repoCalls (snd (processItem e itemId u jid w)) ! n = UpdateItemStatus itemId ''failed'' \<and>
          dbFault e n = Some err) \<and>
   fst (process e \<lparr>data_itemId = itemId, data_url = u, data_jobId = jid\<rparr> w)
     = fst (processItem e itemId u jid w)"
proof -
  let ?n = "length (repoCalls w)"
  have P: "fst (process e \<lparr>data_itemId = itemId, data_url = u, data_jobId = jid\<rparr> w)
     = fst (processItem e itemId u jid w)"
    by (simp add: process_def split: prod.splits sum.splits)
  have "(fst (processItem e itemId u jid w) = Inl err) =
     (\<exists>n. length (repoCalls w) \<le> n \<and>
          n < length (repoCalls (snd (processItem e itemId u jid w))) \<and>
          repoCalls (snd (processItem e itemId u jid w)) ! n = UpdateItemStatus itemId ''failed'' \<and>
          dbFault e n = Some err)"
    unfolding processItem_log processItem_outcome nth_in_suffix
    by (cases "dbFault e ?n"; cases "fetchHtml e u"; cases "dbFault e (Suc ?n)";
        cases "dbFault e (Suc (Suc ?n))")
       (simp_all add: ex_less_3 ex_less_4)
  with P show ?thesis by simp
qed


theorem processItem_throws_iff_witness:
  "fst (processItem dbDownTwice ''item-1'' ''http://example.test/'' ''job-1'' pendingWorld)
     = Inl (Error ''connection still down'') \<and>
   (\<exists>n. length (repoCalls pendingWorld) \<le> n \<and>
        n < length (repoCalls (snd (processItem dbDownTwice ''item-1'' ''http://example.test/''
                                      ''job-1'' pendingWorld))) \<and>
        repoCalls (snd (processItem dbDownTwice ''item-1'' ''http://example.test/'' ''job-1''
                          pendingWorld)) ! n = UpdateItemStatus ''item-1'' ''failed'' \<and>
        dbFault dbDownTwice n = Some (Error ''connection still down'')) \<and>
   fst (process dbDownTwice
          \<lparr>data_itemId = ''item-1'', data_url = ''http://example.test/'', data_jobId = ''job-1''\<rparr>
          pendingWorld)
     = Inl (Error ''connection still down'')"
proof -
  have thrown: "fst (processItem dbDownTwice ''item-1'' ''http://example.test/'' ''job-1''
                       pendingWorld) = Inl (Error ''connection still down'')"
    by (simp add: processItem_outcome dbDownTwice_def quietEnv_def pendingWorld_def)
  from processItem_throws_iff
         [of dbDownTwice "''item-1''" "''http://example.test/''" "''job-1''" pendingWorld
             "Error ''connection still down''"]
       thrown
  show ?thesis by simp
qed

text \<open>
  C9 as stated fails: when the first repository call of \<^verbatim>\<open>processItem\<close> (marking the item
  processing) fails and the later ones succeed, \<^verbatim>\<open>processItem\<close> and \<^verbatim>\<open>process\<close> return
  normally, and the item is left failed with the persistence error as its \<^verbatim>\<open>lastError\<close>.
\<close>

theorem processItem_swallows_persistence_error_counterexample:
  "dbFault dbDownOnce (length (repoCalls pendingWorld)) = Some (Error ''connection terminated'') \<and>
   fst (processItem dbDownOnce ''item-1'' ''http://example.test/'' ''job-1'' pendingWorld) = Inr () \<and>
   fst (process dbDownOnce
          \<lparr>data_itemId = ''item-1'', data_url = ''http://example.test/'', data_jobId = ''job-1''\<rparr>
          pendingWorld) = Inr () \<and>
   scrapingItems (db (snd (processItem dbDownOnce ''item-1'' ''http://example.test/'' ''job-1''
                             pendingWorld)))
     = [(itemIn ''item-1'' ''failed'')\<lparr>lastError := Some ''connection terminated''\<rparr>]"
  by (simp add: process_def processItem_def processItem_try_def updateItemStatus_def
        updateJobProgress_def repoCall_def dbDownOnce_def quietEnv_def pendingWorld_def
        updateItemStatus_db_def updateJobProgress_db_def errorMessageOf_def itemIn_def
        freshJob_def)

text \<open>
  C4. For every error a failed fetch can deliver (\<^verbatim>\<open>deliverable\<close>), the message
  \<^verbatim>\<open>fetchHtml\<close> computes is the one the stated priority order gives: connection time-out
  gives \<^verbatim>\<open>Request timeout\<close>, refused connection \<^verbatim>\<open>Connection refused\<close>, failed name
  resolution \<^verbatim>\<open>DNS resolution failed\<close>, reset by the peer \<^verbatim>\<open>Connection reset by server\<close>,
  otherwise a status code that is present \<^verbatim>\<open>HTTP <code>\<close>, otherwise the raw message of the
  transport. \<^verbatim>\<open>fetchHtml\<close> throws an \<^verbatim>\<open>Error\<close> with that message, and when the repository
  calls around the fetch succeed \<^verbatim>\<open>processItem\<close> returns normally and has written exactly
  that string as \<^verbatim>\<open>lastError\<close> of the item, with status failed.
\<close>

theorem fetchHtml_error_classification:
  assumes "deliverable error"
  shows "fetchErrorMessage error = specMessageOf error \<and>
         (axiosGet e u = Inl error \<longrightarrow> fetchHtml e u = Inl (Error (specMessageOf error))) \<and>
         (dbFault e (length (repoCalls w)) = None \<and> axiosGet e u = Inl error \<and>
          dbFault e (Suc (length (repoCalls w))) = None \<longrightarrow>
            fst (processItem e itemId u jid w) = Inr () \<and>
            scrapingItems (db (snd (processItem e itemId u jid w))) =
              map (\<lambda>item. if item_id item = itemId
                           then item\<lparr>status := ''failed'', lastError := Some (specMessageOf error)\<rparr>
                           else item)
                  (scrapingItems (db w)))"
proof -
  have msg: "fetchErrorMessage error = specMessageOf error"
  proof (cases error)
    case (Axios a)
    show ?thesis
    proof (cases "responseStatus a")
      case None
      with Axios show ?thesis
        by (simp add: fetchErrorMessage_def axiosCodeMessage_def specMessageOf_def
              specErrorMessage_def)
    next
      case (Some statusValue)
      with Axios assms have big: "400 \<le> statusValue"
        and other: "code a \<noteq> Some ''ECONNABORTED''" "code a \<noteq> Some ''ECONNREFUSED''"
          "code a \<noteq> Some ''ENOTFOUND''" "code a \<noteq> Some ''ECONNRESET''"
        by (simp_all add: deliverable_def)
      from big have "statusValue \<noteq> 0" by simp
      with Axios Some big other show ?thesis
        by (simp add: fetchErrorMessage_def specMessageOf_def specErrorMessage_def)
    qed
  next
    case (Error m)
    then show ?thesis
      by (simp add: fetchErrorMessage_def specMessageOf_def specErrorMessage_def)
  next
    case (NonError v)
    with assms show ?thesis by (simp add: deliverable_def)
  qed
  have thrown: "axiosGet e u = Inl error \<longrightarrow> fetchHtml e u = Inl (Error (specMessageOf error))"
    by (simp add: fetchHtml_def msg)
  have written: "dbFault e (length (repoCalls w)) = None \<and> axiosGet e u = Inl error \<and>
          dbFault e (Suc (length (repoCalls w))) = None \<longrightarrow>
            fst (processItem e itemId u jid w) = Inr () \<and>
            scrapingItems (db (snd (processItem e itemId u jid w))) =
              map (\<lambda>item. if item_id item = itemId
                           then item\<lparr>status := ''failed'', lastError := Some (specMessageOf error)\<rparr>
                           else item)
                  (scrapingItems (db w))"
    using processItem_fetch_failure_items[of e w u error itemId jid]
    by (simp add: processItem_outcome fetchHtml_def msg)
  from msg thrown written show ?thesis by blast
qed

text \<open>Witness of C4: the three kinds of failure. A host that cannot be resolved leaves the
  item failed with \<^verbatim>\<open>lastError = "DNS resolution failed"\<close>, a page that is not found with
  \<^verbatim>\<open>"HTTP 404"\<close>; a time-out is reported as \<^verbatim>\<open>Request timeout\<close>.\<close>

theorem fetchHtml_error_classification_witness:
  "deliverable (Axios hostNotFound) \<and>
   deliverable (Axios notFoundResponse) \<and>
   deliverable (Axios requestTimedOut) \<and>
   fetchErrorMessage (Axios requestTimedOut) = ''Request timeout'' \<and>
   axiosGet unreachableEnv ''http://nowhere.test/'' = Inl (Axios hostNotFound) \<and>
   dbFault unreachableEnv (length (repoCalls pendingWorld)) = None \<and>
   dbFault unreachableEnv (Suc (length (repoCalls pendingWorld))) = None \<and>
   fetchHtml unreachableEnv ''http://nowhere.test/'' = Inl (Error ''DNS resolution failed'') \<and>
   fst (processItem unreachableEnv ''item-1'' ''http://nowhere.test/'' ''job-1'' pendingWorld)
     = Inr () \<and>
   scrapingItems (db (snd (processItem unreachableEnv ''item-1'' ''http://nowhere.test/''
                             ''job-1'' pendingWorld)))
     = [(itemIn ''item-1'' ''failed'')\<lparr>lastError := Some ''DNS resolution failed''\<rparr>] \<and>
   axiosGet notFoundEnv ''http://example.test/gone'' = Inl (Axios notFoundResponse) \<and>
   fetchHtml notFoundEnv ''http://example.test/gone'' = Inl (Error ''HTTP 404'') \<and>
   scrapingItems (db (snd (processItem notFoundEnv ''item-1'' ''http://example.test/gone''
                             ''job-1'' pendingWorld)))
     = [(itemIn ''item-1'' ''failed'')\<lparr>lastError := Some ''HTTP 404''\<rparr>]"
proof -
  have d: "deliverable (Axios hostNotFound)" "deliverable (Axios notFoundResponse)"
      "deliverable (Axios requestTimedOut)"
    by (simp_all add: deliverable_def hostNotFound_def notFoundResponse_def requestTimedOut_def)
  have s: "specMessageOf (Axios hostNotFound) = ''DNS resolution failed''"
      "specMessageOf (Axios notFoundResponse) = ''HTTP 404''"
      "specMessageOf (Axios requestTimedOut) = ''Request timeout''"
    by (simp_all add: specMessageOf_def specErrorMessage_def hostNotFound_def
          notFoundResponse_def requestTimedOut_def)
  have h: "axiosGet unreachableEnv ''http://nowhere.test/'' = Inl (Axios hostNotFound)"
      "dbFault unreachableEnv (length (repoCalls pendingWorld)) = None"
      "dbFault unreachableEnv (Suc (length (repoCalls pendingWorld))) = None"
    by (simp_all add: unreachableEnv_def quietEnv_def)
  have g: "axiosGet notFoundEnv ''http://example.test/gone'' = Inl (Axios notFoundResponse)"
      "dbFault notFoundEnv (length (repoCalls pendingWorld)) = None"
      "dbFault notFoundEnv (Suc (length (repoCalls pendingWorld))) = None"
    by (simp_all add: notFoundEnv_def quietEnv_def)
  have t: "fetchErrorMessage (Axios requestTimedOut) = ''Request timeout''"
    using fetchHtml_error_classification[OF d(3), THEN conjunct1] s(3) by simp
  note H = fetchHtml_error_classification
             [OF d(1), of unreachableEnv "''http://nowhere.test/''" pendingWorld "''item-1''"
                "''job-1''", unfolded s]
  note G = fetchHtml_error_classification
             [OF d(2), of notFoundEnv "''http://example.test/gone''" pendingWorld "''item-1''"
                "''job-1''", unfolded s]
  have H2: "fetchHtml unreachableEnv ''http://nowhere.test/'' = Inl (Error ''DNS resolution failed'')"
    using H h by blast
  have H3: "fst (processItem unreachableEnv ''item-1'' ''http://nowhere.test/'' ''job-1''
                   pendingWorld) = Inr ()"
    using H h by blast
  have H4: "scrapingItems (db (snd (processItem unreachableEnv ''item-1''
                                      ''http://nowhere.test/'' ''job-1'' pendingWorld)))
     = [(itemIn ''item-1'' ''failed'')\<lparr>lastError := Some ''DNS resolution failed''\<rparr>]"
    using H[THEN conjunct2, THEN conjunct2] h by (simp add: pendingWorld_def itemIn_def)
  have G2: "fetchHtml notFoundEnv ''http://example.test/gone'' = Inl (Error ''HTTP 404'')"
    using G g by blast
  have G4: "scrapingItems (db (snd (processItem notFoundEnv ''item-1''
                                      ''http://example.test/gone'' ''job-1'' pendingWorld)))
     = [(itemIn ''item-1'' ''failed'')\<lparr>lastError := Some ''HTTP 404''\<rparr>]"
    using G[THEN conjunct2, THEN conjunct2] g by (simp add: pendingWorld_def itemIn_def)
  from d t h H2 H3 H4 g(1) G2 G4 show ?thesis by simp
qed

section \<open>Extraction\<close>

lemma emailAt_positive: "emailAt prev s = Some n \<Longrightarrow> 0 < n"
  by (auto simp: emailAt_def Let_def split: if_splits list.splits option.splits)

lemma scanEmails_nonempty: "m \<in> set (scanEmails prev s) \<Longrightarrow> m \<noteq> []"
proof (induction prev s rule: scanEmails.induct)
  case (1 prev)
  then show ?case by simp
next
  case (2 prev c cs)
  show ?case
  proof (cases "emailAt prev (c # cs)")
    case None
    with 2 show ?thesis by simp
  next
    case (Some n)
    then have "0 < n" by (rule emailAt_positive)
    then have "take n (c # cs) \<noteq> []" by (cases n) simp_all
    with 2 Some show ?thesis by auto
  qed
qed

lemma matchEmails_nonempty: "[] \<notin> set (matchEmails t)"
  unfolding matchEmails_def using scanEmails_nonempty by blast



lemma uniqueInOrder_fold_distinct:
  "distinct acc \<Longrightarrow> distinct (foldl (\<lambda>acc x. if x \<in> set acc then acc else acc @ [x]) acc xs)"
  by (induction xs arbitrary: acc) auto

lemma distinct_uniqueInOrder: "distinct (uniqueInOrder xs)"
  by (simp add: uniqueInOrder_def uniqueInOrder_fold_distinct)

lemma pairContacts_zip:
  "maxMatches \<le> length ppl \<Longrightarrow> maxMatches \<le> length ues \<Longrightarrow>
   pairContacts i maxMatches ppl ues acc =
     acc @ map unknownTitleContact
             (filter (\<lambda>pe. plausibleName (fst pe))
                (drop i (zip (take maxMatches ppl) (take maxMatches ues))))"
proof (induction i maxMatches ppl ues acc rule: pairContacts.induct)
  case (1 i maxMatches ppl ues acc)
  show ?case
  proof (cases "i < maxMatches")
    case False
    then show ?thesis by (simp add: pairContacts.simps[of i])
  next
    case True
    let ?z = "zip (take maxMatches ppl) (take maxMatches ues)"
    have len: "i < length ?z" using True 1(2,3) by simp
    have hd: "drop i ?z = (ppl ! i, ues ! i) # drop (Suc i) ?z"
      using len True by (simp add: Cons_nth_drop_Suc[symmetric])
    have ne: "plausibleName (ppl ! i) \<Longrightarrow> ppl ! i \<noteq> []"
      by (auto simp: plausibleName_def)
    show ?thesis
      using True 1 hd ne
      by (subst pairContacts.simps) (auto simp: Let_def plausibleName_def unknownTitleContact_def)
  qed
qed

lemma pairContacts_start:
  "pairContacts 0 (min (length ppl) (length ues)) ppl ues [] =
     map unknownTitleContact (filter (\<lambda>pe. plausibleName (fst pe)) (zip ppl ues))"
proof -
  have "zip (take (min (length ppl) (length ues)) ppl) (take (min (length ppl) (length ues)) ues)
          = zip ppl ues"
    by (metis take_zip min.commute length_zip take_all order_refl)
  then show ?thesis
    by (simp add: pairContacts_zip)
qed

lemma extractWithNER_calls:
  "nerCalls (snd (extractWithNER engine S key st)) = Suc (nerCalls st)"
  by (simp add: extractWithNER_def Let_def split: option.splits sum.splits)


lemma extractWithNER_cacheWellFormed:
  assumes "cacheWellFormed st"
  shows "cacheWellFormed (snd (extractWithNER engine S key st))"
  using assms matchEmails_nonempty
  by (auto simp: extractWithNER_def Let_def cacheWellFormed_def emptyResult_def
           split: option.splits sum.splits if_splits)




lemma parseContacts_try_ner:
  assumes "S CONTACT_CARD = Inr cards"
    and "structuredContacts cards [] = Inr []"
    and "extractWithNER engine S itemId st = (Inr nerData, st')"
  shows "parseContacts_try engine S itemId st =
           (Inr (let paired = map unknownTitleContact
                      (filter (\<lambda>pe. plausibleName (fst pe))
                         (zip (people nerData) (uniqueInOrder (emails nerData))))
                 in if paired = [] then None else Some paired), st')"
proof (cases "people nerData = [] \<or> emails nerData = []")
  case True
  then have "zip (people nerData) (uniqueInOrder (emails nerData)) = []"
    by (auto simp: uniqueInOrder_def)
  with True assms show ?thesis
    by (auto simp: parseContacts_try_def Let_def)
next
  case False
  with assms show ?thesis
    by (simp add: parseContacts_try_def Let_def pairContacts_start)
qed


lemma parseContacts_of_try:
  "fst (parseContacts engine S itemId st) =
     (case fst (parseContacts_try engine S itemId st) of Inl err \<Rightarrow> None | Inr found \<Rightarrow> found)"
  by (simp add: parseContacts_def split: prod.splits sum.splits)

lemma paired_by_index:
  "(c \<in> set (map unknownTitleContact (filter (\<lambda>pe. plausibleName (fst pe)) (zip ppl ues)))) =
     (\<exists>i<min (length ppl) (length ues).
         plausibleName (ppl ! i) \<and> c = \<lparr>name = ppl ! i, title = ''Unknown'', email = ues ! i\<rparr>)"
  by (auto simp: set_zip unknownTitleContact_def image_iff)

text \<open>
  C10. When no structured contact was found and entity recognition returns its data,
  \<^verbatim>\<open>parseContacts\<close> returns the contacts built from the positional pairs
  (person \<open>i\<close>, distinct e-mail \<open>i\<close>), \<open>i\<close> below the smaller of the two counts, whose
  person passes the length filter, in that order (null when none is left): a contact is in
  the result exactly when it is such a pair, so the address of a dropped pair goes to no
  other person (the contact that carries distinct e-mail \<open>i\<close> carries person \<open>i\<close>). The
  loop can therefore return fewer contacts than that smaller count.
\<close>

theorem parseContacts_pairs_by_index:
  assumes "S CONTACT_CARD = Inr cards"
    and "structuredContacts cards [] = Inr []"
    and "extractWithNER engine S itemId st = (Inr nerData, st')"
  shows "fst (parseContacts engine S itemId st) =
           (if map unknownTitleContact
                 (filter (\<lambda>pe. plausibleName (fst pe))
                    (zip (people nerData) (uniqueInOrder (emails nerData)))) = []
            then None
            else Some (map unknownTitleContact
                         (filter (\<lambda>pe. plausibleName (fst pe))
                            (zip (people nerData) (uniqueInOrder (emails nerData)))))) \<and>
         (\<forall>c. (c \<in> set (map unknownTitleContact
                          (filter (\<lambda>pe. plausibleName (fst pe))
                             (zip (people nerData) (uniqueInOrder (emails nerData)))))) =
              (\<exists>i<min (length (people nerData)) (length (uniqueInOrder (emails nerData))).
                  plausibleName (people nerData ! i) \<and>
                  c = \<lparr>name = people nerData ! i, title = ''Unknown'',
                       email = uniqueInOrder (emails nerData) ! i\<rparr>)) \<and>
         (\<forall>c i. c \<in> set (map unknownTitleContact
                          (filter (\<lambda>pe. plausibleName (fst pe))
                             (zip (people nerData) (uniqueInOrder (emails nerData))))) \<and>
                i < length (uniqueInOrder (emails nerData)) \<and>
                email c = uniqueInOrder (emails nerData) ! i \<longrightarrow>
                  i < length (people nerData) \<and> name c = people nerData ! i) \<and>
         (\<exists>ppl ues. length (pairContacts 0 (min (length ppl) (length ues)) ppl ues [])
                      < min (length ppl) (length ues))"
proof -
  have A: "fst (parseContacts engine S itemId st) =
           (if map unknownTitleContact
                 (filter (\<lambda>pe. plausibleName (fst pe))
                    (zip (people nerData) (uniqueInOrder (emails nerData)))) = []
            then None
            else Some (map unknownTitleContact
                         (filter (\<lambda>pe. plausibleName (fst pe))
                            (zip (people nerData) (uniqueInOrder (emails nerData))))))"
    unfolding parseContacts_of_try parseContacts_try_ner[OF assms]
    by (simp add: Let_def)
  have "length (pairContacts 0 (min (length [''J'', ''Jane Doe''])
                                    (length [''info@acme.com'', ''jane@acme.com'']))
                  [''J'', ''Jane Doe''] [''info@acme.com'', ''jane@acme.com''] [])
          < min (length [''J'', ''Jane Doe'']) (length [''info@acme.com'', ''jane@acme.com''])"
    unfolding pairContacts_start by (simp add: plausibleName_def)
  then have C: "\<exists>ppl ues. length (pairContacts 0 (min (length ppl) (length ues)) ppl ues [])
                      < min (length ppl) (length ues)"
    by blast
  have B: "\<forall>c. (c \<in> set (map unknownTitleContact
                          (filter (\<lambda>pe. plausibleName (fst pe))
                             (zip (people nerData) (uniqueInOrder (emails nerData)))))) =
              (\<exists>i<min (length (people nerData)) (length (uniqueInOrder (emails nerData))).
                  plausibleName (people nerData ! i) \<and>
                  c = \<lparr>name = people nerData ! i, title = ''Unknown'',
                       email = uniqueInOrder (emails nerData) ! i\<rparr>)"
    using paired_by_index by blast
  have D: "\<forall>c i. c \<in> set (map unknownTitleContact
                          (filter (\<lambda>pe. plausibleName (fst pe))
                             (zip (people nerData) (uniqueInOrder (emails nerData))))) \<and>
                i < length (uniqueInOrder (emails nerData)) \<and>
                email c = uniqueInOrder (emails nerData) ! i \<longrightarrow>
                  i < length (people nerData) \<and> name c = people nerData ! i"
  proof (intro allI impI, elim conjE)
    fix c i
    assume m: "c \<in> set (map unknownTitleContact
                          (filter (\<lambda>pe. plausibleName (fst pe))
                             (zip (people nerData) (uniqueInOrder (emails nerData)))))"
      and i: "i < length (uniqueInOrder (emails nerData))"
      and e: "email c = uniqueInOrder (emails nerData) ! i"
    from m B obtain j where j: "j < min (length (people nerData))
                                      (length (uniqueInOrder (emails nerData)))"
        "c = \<lparr>name = people nerData ! j, title = ''Unknown'',
              email = uniqueInOrder (emails nerData) ! j\<rparr>"
      by blast
    from j(2) e have "uniqueInOrder (emails nerData) ! j = uniqueInOrder (emails nerData) ! i"
      by simp
    with j(1) i have "j = i"
      using distinct_uniqueInOrder[of "emails nerData"] by (simp add: nth_eq_iff_index_eq)
    with j show "i < length (people nerData) \<and> name c = people nerData ! i"
      by simp
  qed
  from A B C D show ?thesis by blast
qed

lemma layer3_calls:
  "nerCalls (snd (layer3 engine S itemId cd st)) =
     nerCalls st + (if falsy (companyName cd) \<or> falsy (hqLocation cd) then 1 else 0)"
  using extractWithNER_calls[of engine S itemId st]
  by (auto simp: layer3_def split: prod.splits sum.splits)

lemma parseCompanyData_calls:
  "nerCalls (snd (parseCompanyData engine S itemId st)) =
     nerCalls st +
     (case layer1 S of
        Inl err \<Rightarrow> 0
      | Inr cd \<Rightarrow> if falsy (companyName (layer2 S cd)) \<or> falsy (hqLocation (layer2 S cd))
                  then 1 else 0)"
proof (cases "layer1 S")
  case (Inl err)
  then show ?thesis by (simp add: parseCompanyData_def parseCompanyData_try_def)
next
  case (Inr cd)
  have "snd (parseCompanyData engine S itemId st) = snd (layer3 engine S itemId (layer2 S cd) st)"
    using Inr by (simp add: parseCompanyData_def parseCompanyData_try_def split: prod.splits sum.splits)
  then show ?thesis using Inr by (simp add: layer3_calls)
qed

lemma parseContacts_calls:
  "nerCalls (snd (parseContacts engine S itemId st)) =
     nerCalls st +
     (case S CONTACT_CARD of
        Inl err \<Rightarrow> 0
      | Inr cards \<Rightarrow>
          (case structuredContacts cards [] of
             Inl err \<Rightarrow> 0
           | Inr structured \<Rightarrow> if structured = [] then 1 else 0))"
  using extractWithNER_calls[of engine S itemId st]
  by (auto simp: parseContacts_def parseContacts_try_def Let_def split: prod.splits sum.splits)

lemma extractWithNER_short:
  assumes "nerCache st key = None" and "S ''body'' = Inr els"
    and "length (trim (collapseSpaces (selText els))) < 50"
  shows "fst (extractWithNER engine S key st) = Inr emptyResult"
  using assms by (auto simp: extractWithNER_def Let_def)

lemma extractWithNER_long:
  assumes "nerCache st key = None" and "S ''body'' = Inr els"
    and "50 \<le> length (trim (collapseSpaces (selText els)))"
  shows "fst (extractWithNER engine S key st) =
           (case engine (take MAX_TEXT_LENGTH (trim (collapseSpaces (selText els)))) of
              Inl err \<Rightarrow> Inl err
            | Inr doc \<Rightarrow>
                Inr \<lparr>ner_companyName = List.find plausibleName (organizations doc),
                     ner_hqLocation = List.find plausibleName (places doc),
                     people = persons doc,
                     emails = matchEmails (take MAX_TEXT_LENGTH (trim (collapseSpaces (selText els))))\<rparr>)"
proof -
  have "trim (collapseSpaces (selText els)) \<noteq> []" using assms(3) by auto
  moreover have "plausibleName = (\<lambda>org. length org > 1 \<and> length org < 100)"
    by (auto simp: plausibleName_def)
  ultimately show ?thesis
    using assms
    by (auto simp: extractWithNER_def Let_def split: sum.splits)
qed


subsection \<open>Examples of contact extraction\<close>

lemma prose_collapsed: "trim (collapseSpaces proseBody) = proseText"
  by code_simp

lemma prose_emails: "matchEmails proseText = [''info@acme.com'', ''jane@acme.com'', ''info@acme.com'']"
  by code_simp

lemma prose_length: "50 \<le> length proseText \<and> length proseText \<le> MAX_TEXT_LENGTH"
  by (simp add: proseText_def MAX_TEXT_LENGTH_def)

lemma prose_extract:
  "extractWithNER proseEngine proseDocument ''item-1'' freshNer =
     (Inr proseNer, \<lparr>nerCache = [''item-1'' \<mapsto> proseNer], nerCalls = 1\<rparr>)"
proof -
  have ne: "proseText \<noteq> []" by (simp add: proseText_def)
  show ?thesis
    using prose_length ne
    by (simp add: extractWithNER_def proseDocument_def freshNer_def selText_def textElement_def
          prose_collapsed prose_emails proseEngine_def proseNer_def Let_def)
qed

text \<open>Witness of C10: two people, of whom the first fails the length filter, and two
  distinct addresses give one contact, the second pair.\<close>

theorem parseContacts_pairs_by_index_witness:
  "proseDocument CONTACT_CARD = Inr [] \<and>
   structuredContacts [] [] = Inr [] \<and>
   extractWithNER proseEngine proseDocument ''item-1'' freshNer =
     (Inr proseNer, \<lparr>nerCache = [''item-1'' \<mapsto> proseNer], nerCalls = 1\<rparr>) \<and>
   people proseNer = [''J'', ''Jane Doe''] \<and>
   uniqueInOrder (emails proseNer) = [''info@acme.com'', ''jane@acme.com''] \<and>
   fst (parseContacts proseEngine proseDocument ''item-1'' freshNer) =
     Some [\<lparr>name = ''Jane Doe'', title = ''Unknown'', email = ''jane@acme.com''\<rparr>]"
proof -
  have h1: "proseDocument CONTACT_CARD = Inr []"
    by (simp add: proseDocument_def CONTACT_CARD_def)
  have h2: "structuredContacts [] [] = Inr []"
    by simp
  have u: "uniqueInOrder (emails proseNer) = [''info@acme.com'', ''jane@acme.com'']"
    by (simp add: uniqueInOrder_def proseNer_def)
  have p: "people proseNer = [''J'', ''Jane Doe'']"
    by (simp add: proseNer_def)
  from parseContacts_pairs_by_index[OF h1 h2 prose_extract] h1 h2 prose_extract u p
  show ?thesis
    by (simp add: plausibleName_def unknownTitleContact_def)
qed



subsection \<open>Entity recognition and the layers\<close>

lemma find_plausible:
  "(List.find plausibleName xs = Some x) =
     (\<exists>i<length xs. xs ! i = x \<and> 1 < length x \<and> length x < 100 \<and>
        (\<forall>j<i. \<not> (1 < length (xs ! j) \<and> length (xs ! j) < 100)))"
  by (auto simp: find_Some_iff plausibleName_def)

text \<open>
  C7. \<^verbatim>\<open>parseCompanyData\<close> calls \<^verbatim>\<open>extractWithNER\<close> once if, after layers 1 and 2, the
  company name or the location is still missing, and not at all otherwise;
  \<^verbatim>\<open>parseContacts\<close> calls it once if no structured contact was found, and not at all
  otherwise. When \<^verbatim>\<open>extractWithNER\<close> computes its result (no cached entry for the item): a
  collapsed body text of fewer than 50 characters gives the empty result; a longer one is
  analysed through its first 100,000 characters only (the recogniser and the e-mail pattern
  both get that prefix, so two texts with the same prefix give the same outcome), and the
  company name (the location) is the first organisation (place) whose length is strictly
  between 1 and 100.
\<close>

theorem entity_recognition_trigger_and_limits:
  "nerCalls (snd (parseCompanyData engine S itemId st)) =
     nerCalls st +
     (case layer1 S of
        Inl err \<Rightarrow> 0
      | Inr cd \<Rightarrow> if falsy (companyName (layer2 S cd)) \<or> falsy (hqLocation (layer2 S cd))
                  then 1 else 0) \<and>
   nerCalls (snd (parseContacts engine S itemId st)) =
     nerCalls st +
     (case S CONTACT_CARD of
        Inl err \<Rightarrow> 0
      | Inr cards \<Rightarrow>
          (case structuredContacts cards [] of
             Inl err \<Rightarrow> 0
           | Inr structured \<Rightarrow> if structured = [] then 1 else 0)) \<and>
   (nerCache st itemId = None \<and> S ''body'' = Inr els \<and>
    length (trim (collapseSpaces (selText els))) < 50 \<longrightarrow>
      fst (extractWithNER engine S itemId st) =
        Inr \<lparr>ner_companyName = None, ner_hqLocation = None, people = [], emails = []\<rparr>) \<and>
   (nerCache st itemId = None \<and> S ''body'' = Inr els \<and>
    50 \<le> length (trim (collapseSpaces (selText els))) \<and>
    engine (take 100000 (trim (collapseSpaces (selText els)))) = Inr doc \<longrightarrow>
      (\<exists>r. fst (extractWithNER engine S itemId st) = Inr r \<and>
           people r = persons doc \<and>
           emails r = matchEmails (take 100000 (trim (collapseSpaces (selText els)))) \<and>
           (\<forall>org. (ner_companyName r = Some org) =
                  (\<exists>i<length (organizations doc).
                      organizations doc ! i = org \<and> 1 < length org \<and> length org < 100 \<and>
                      (\<forall>j<i. \<not> (1 < length (organizations doc ! j) \<and>
                                  length (organizations doc ! j) < 100)))) \<and>
           (\<forall>place. (ner_hqLocation r = Some place) =
                  (\<exists>i<length (places doc).
                      places doc ! i = place \<and> 1 < length place \<and> length place < 100 \<and>
                      (\<forall>j<i. \<not> (1 < length (places doc ! j) \<and>
                                  length (places doc ! j) < 100)))))) \<and>
   (nerCache st itemId = None \<and> S ''body'' = Inr els \<and> S' ''body'' = Inr els' \<and>
    50 \<le> length (trim (collapseSpaces (selText els))) \<and>
    50 \<le> length (trim (collapseSpaces (selText els'))) \<and>
    take 100000 (trim (collapseSpaces (selText els)))
      = take 100000 (trim (collapseSpaces (selText els'))) \<longrightarrow>
      fst (extractWithNER engine S itemId st) = fst (extractWithNER engine S' itemId st))"
proof -
  have A: "nerCalls (snd (parseCompanyData engine S itemId st)) =
     nerCalls st +
     (case layer1 S of
        Inl err \<Rightarrow> 0
      | Inr cd \<Rightarrow> if falsy (companyName (layer2 S cd)) \<or> falsy (hqLocation (layer2 S cd))
                  then 1 else 0)"
    by (rule parseCompanyData_calls)
  have B: "nerCalls (snd (parseContacts engine S itemId st)) =
     nerCalls st +
     (case S CONTACT_CARD of
        Inl err \<Rightarrow> 0
      | Inr cards \<Rightarrow>
          (case structuredContacts cards [] of
             Inl err \<Rightarrow> 0
           | Inr structured \<Rightarrow> if structured = [] then 1 else 0))"
    by (rule parseContacts_calls)
  have C: "nerCache st itemId = None \<and> S ''body'' = Inr els \<and>
    length (trim (collapseSpaces (selText els))) < 50 \<longrightarrow>
      fst (extractWithNER engine S itemId st) =
        Inr \<lparr>ner_companyName = None, ner_hqLocation = None, people = [], emails = []\<rparr>"
    using extractWithNER_short[of st itemId S els engine] by (simp add: emptyResult_def)
  have D: "nerCache st itemId = None \<and> S ''body'' = Inr els \<and>
    50 \<le> length (trim (collapseSpaces (selText els))) \<and>
    engine (take 100000 (trim (collapseSpaces (selText els)))) = Inr doc \<longrightarrow>
      (\<exists>r. fst (extractWithNER engine S itemId st) = Inr r \<and>
           people r = persons doc \<and>
           emails r = matchEmails (take 100000 (trim (collapseSpaces (selText els)))) \<and>
           (\<forall>org. (ner_companyName r = Some org) =
                  (\<exists>i<length (organizations doc).
                      organizations doc ! i = org \<and> 1 < length org \<and> length org < 100 \<and>
                      (\<forall>j<i. \<not> (1 < length (organizations doc ! j) \<and>
                                  length (organizations doc ! j) < 100)))) \<and>
           (\<forall>place. (ner_hqLocation r = Some place) =
                  (\<exists>i<length (places doc).
                      places doc ! i = place \<and> 1 < length place \<and> length place < 100 \<and>
                      (\<forall>j<i. \<not> (1 < length (places doc ! j) \<and>
                                  length (places doc ! j) < 100)))))"
    using extractWithNER_long[of st itemId S els engine]
    by (simp add: MAX_TEXT_LENGTH_def find_plausible)
  have E: "nerCache st itemId = None \<and> S ''body'' = Inr els \<and> S' ''body'' = Inr els' \<and>
    50 \<le> length (trim (collapseSpaces (selText els))) \<and>
    50 \<le> length (trim (collapseSpaces (selText els'))) \<and>
    take 100000 (trim (collapseSpaces (selText els)))
      = take 100000 (trim (collapseSpaces (selText els'))) \<longrightarrow>
      fst (extractWithNER engine S itemId st) = fst (extractWithNER engine S' itemId st)"
  proof (intro impI, elim conjE)
    assume miss: "nerCache st itemId = None"
      and b: "S ''body'' = Inr els" and b': "S' ''body'' = Inr els'"
      and l: "50 \<le> length (trim (collapseSpaces (selText els)))"
      and l': "50 \<le> length (trim (collapseSpaces (selText els')))"
      and same: "take 100000 (trim (collapseSpaces (selText els)))
                   = take 100000 (trim (collapseSpaces (selText els')))"
    show "fst (extractWithNER engine S itemId st) = fst (extractWithNER engine S' itemId st)"
      unfolding extractWithNER_long[of st itemId S els engine, OF miss b l]
        extractWithNER_long[of st itemId S' els' engine, OF miss b' l']
        MAX_TEXT_LENGTH_def same ..
  qed
  from A B C D E show ?thesis by blast
qed

lemma parseCompanyData_of_try:
  "fst (parseCompanyData engine S itemId st) =
     (case fst (parseCompanyData_try engine S itemId st) of
        Inl err \<Rightarrow> nullCompanyData | Inr cd \<Rightarrow> cd)"
  by (simp add: parseCompanyData_def split: prod.splits sum.splits)

lemma layer2_keeps:
  "(\<not> falsy (companyName c1) \<longrightarrow> companyName (layer2 S c1) = companyName c1) \<and>
   (\<not> falsy (website c1) \<longrightarrow> website (layer2 S c1) = website c1) \<and>
   (\<not> falsy (industry c1) \<longrightarrow> industry (layer2 S c1) = industry c1) \<and>
   (\<not> falsy (headcountRange c1) \<longrightarrow> headcountRange (layer2 S c1) = headcountRange c1) \<and>
   (\<not> falsy (hqLocation c1) \<longrightarrow> hqLocation (layer2 S c1) = hqLocation c1)"
  by (simp add: layer2_def)

lemma layer3_keeps:
  assumes "layer3 engine S itemId c2 st = (Inr c3, st')"
  shows "(\<not> falsy (companyName c2) \<longrightarrow> companyName c3 = companyName c2) \<and>
         (\<not> falsy (hqLocation c2) \<longrightarrow> hqLocation c3 = hqLocation c2) \<and>
         website c3 = website c2 \<and> industry c3 = industry c2 \<and>
         headcountRange c3 = headcountRange c2"
  using assms by (auto simp: layer3_def split: if_splits prod.splits sum.splits)

text \<open>
  C5. Let layer 1 return \<open>c1\<close> on a document. A non-empty text under \<^verbatim>\<open>h1.company-name\<close>
  is the company name of \<open>c1\<close>. Layer 2 leaves every field that \<open>c1\<close> has filled as it
  is, and layer 3 changes only a company name or a location that is still missing after
  layer 2. So whenever the \<^verbatim>\<open>try\<close> block of \<^verbatim>\<open>parseCompanyData\<close> completes, its result
  carries every field filled by layer 1, and otherwise every field filled by layer 2,
  unchanged. (When a later step throws there is no layered result: the handler returns
  the all-null record.)
\<close>

theorem parseCompanyData_layer_precedence:
  assumes "layer1 S = Inr c1"
  shows "(S COMPANY_NAME = Inr nameSel \<and> trim (selText nameSel) \<noteq> [] \<longrightarrow>
            companyName c1 = Some (trim (selText nameSel)) \<and> \<not> falsy (companyName c1)) \<and>
         (\<not> falsy (companyName c1) \<longrightarrow> companyName (layer2 S c1) = companyName c1) \<and>
         (\<not> falsy (website c1) \<longrightarrow> website (layer2 S c1) = website c1) \<and>
         (\<not> falsy (industry c1) \<longrightarrow> industry (layer2 S c1) = industry c1) \<and>
         (\<not> falsy (headcountRange c1) \<longrightarrow> headcountRange (layer2 S c1) = headcountRange c1) \<and>
         (\<not> falsy (hqLocation c1) \<longrightarrow> hqLocation (layer2 S c1) = hqLocation c1) \<and>
         (parseCompanyData_try engine S itemId st = (Inr cd, st') \<longrightarrow>
            fst (parseCompanyData engine S itemId st) = cd \<and>
            (\<not> falsy (companyName c1) \<longrightarrow> companyName cd = companyName c1) \<and>
            (\<not> falsy (website c1) \<longrightarrow> website cd = website c1) \<and>
            (\<not> falsy (industry c1) \<longrightarrow> industry cd = industry c1) \<and>
            (\<not> falsy (headcountRange c1) \<longrightarrow> headcountRange cd = headcountRange c1) \<and>
            (\<not> falsy (hqLocation c1) \<longrightarrow> hqLocation cd = hqLocation c1) \<and>
            (\<not> falsy (companyName (layer2 S c1)) \<longrightarrow> companyName cd = companyName (layer2 S c1)) \<and>
            (\<not> falsy (hqLocation (layer2 S c1)) \<longrightarrow> hqLocation cd = hqLocation (layer2 S c1)) \<and>
            website cd = website (layer2 S c1) \<and>
            industry cd = industry (layer2 S c1) \<and>
            headcountRange cd = headcountRange (layer2 S c1))"
proof -
  have A: "S COMPANY_NAME = Inr nameSel \<and> trim (selText nameSel) \<noteq> [] \<longrightarrow>
            companyName c1 = Some (trim (selText nameSel)) \<and> \<not> falsy (companyName c1)"
    using assms by (auto simp: layer1_def orNull_def falsy_def split: sum.splits)
  note B = layer2_keeps[of c1 S]
  have C: "parseCompanyData_try engine S itemId st = (Inr cd, st') \<longrightarrow>
            fst (parseCompanyData engine S itemId st) = cd \<and>
            (\<not> falsy (companyName c1) \<longrightarrow> companyName cd = companyName c1) \<and>
            (\<not> falsy (website c1) \<longrightarrow> website cd = website c1) \<and>
            (\<not> falsy (industry c1) \<longrightarrow> industry cd = industry c1) \<and>
            (\<not> falsy (headcountRange c1) \<longrightarrow> headcountRange cd = headcountRange c1) \<and>
            (\<not> falsy (hqLocation c1) \<longrightarrow> hqLocation cd = hqLocation c1) \<and>
            (\<not> falsy (companyName (layer2 S c1)) \<longrightarrow> companyName cd = companyName (layer2 S c1)) \<and>
            (\<not> falsy (hqLocation (layer2 S c1)) \<longrightarrow> hqLocation cd = hqLocation (layer2 S c1)) \<and>
            website cd = website (layer2 S c1) \<and>
            industry cd = industry (layer2 S c1) \<and>
            headcountRange cd = headcountRange (layer2 S c1)"
  proof
    assume t: "parseCompanyData_try engine S itemId st = (Inr cd, st')"
    then have l3: "layer3 engine S itemId (layer2 S c1) st = (Inr cd, st')"
      using assms by (simp add: parseCompanyData_try_def)
    have r: "fst (parseCompanyData engine S itemId st) = cd"
      using t by (simp add: parseCompanyData_def)
    from layer3_keeps[OF l3] B r
    show "fst (parseCompanyData engine S itemId st) = cd \<and>
            (\<not> falsy (companyName c1) \<longrightarrow> companyName cd = companyName c1) \<and>
            (\<not> falsy (website c1) \<longrightarrow> website cd = website c1) \<and>
            (\<not> falsy (industry c1) \<longrightarrow> industry cd = industry c1) \<and>
            (\<not> falsy (headcountRange c1) \<longrightarrow> headcountRange cd = headcountRange c1) \<and>
            (\<not> falsy (hqLocation c1) \<longrightarrow> hqLocation cd = hqLocation c1) \<and>
            (\<not> falsy (companyName (layer2 S c1)) \<longrightarrow> companyName cd = companyName (layer2 S c1)) \<and>
            (\<not> falsy (hqLocation (layer2 S c1)) \<longrightarrow> hqLocation cd = hqLocation (layer2 S c1)) \<and>
            website cd = website (layer2 S c1) \<and>
            industry cd = industry (layer2 S c1) \<and>
            headcountRange cd = headcountRange (layer2 S c1)"
      by auto
  qed
  from A B C show ?thesis by blast
qed

lemma processItem_success_items:
  assumes "dbFault e (length (repoCalls w)) = None"
    and "axiosGet e u = Inr html"
    and "dbFault e (Suc (length (repoCalls w))) = None"
  shows "scrapingItems (db (snd (processItem e itemId u jid w))) =
           map (\<lambda>item. if item_id item = itemId
                        then item\<lparr>status := ''completed'',
                                  companyName := companyName (fst (parseCompanyData (nlp e) (cheerioLoad e html) itemId (ner w))),
                                  website := website (fst (parseCompanyData (nlp e) (cheerioLoad e html) itemId (ner w))),
                                  industry := industry (fst (parseCompanyData (nlp e) (cheerioLoad e html) itemId (ner w))),
                                  headcountRange := headcountRange (fst (parseCompanyData (nlp e) (cheerioLoad e html) itemId (ner w))),
                                  hqLocation := hqLocation (fst (parseCompanyData (nlp e) (cheerioLoad e html) itemId (ner w))),
                                  contacts := fst (parseContacts (nlp e) (cheerioLoad e html) itemId
                                                     (snd (parseCompanyData (nlp e) (cheerioLoad e html) itemId (ner w)))),
                                  lastError := None\<rparr>
                        else item)
               (scrapingItems (db w))"
  using assms
  by (simp add: processItem_def processItem_try_def updateItemStatus_def updateJobProgress_def
        repoCall_def Let_def fetchHtml_def updateItemStatus_db_def updateJobProgress_db_def
        o_def case_prod_beta
        split: sum.splits option.splits cong: if_cong)

text \<open>
  C8. \<^verbatim>\<open>parseCompanyData\<close> and \<^verbatim>\<open>parseContacts\<close> always return a value: whenever their
  \<^verbatim>\<open>try\<close> block throws (a selector of layer 1 or the card selector throws, or entity
  recognition is needed and throws), the result is the all-null record, respectively null,
  and otherwise it is what the block returned. So \<^verbatim>\<open>processItem\<close>, once the page is fetched
  and its two repository calls succeed, returns normally with the item completed, whatever
  the document and the recogniser do. (An error thrown while a fallback selector is probed
  is absorbed earlier, by \<^verbatim>\<open>tryFallbackSelectors\<close>, which skips that selector.)
\<close>

theorem extraction_total_at_boundary:
  "(fst (parseCompanyData_try engine S itemId st) = Inl err \<longrightarrow>
      fst (parseCompanyData engine S itemId st) =
        \<lparr>companyName = None, website = None, industry = None, headcountRange = None,
         hqLocation = None\<rparr>) \<and>
   (fst (parseCompanyData_try engine S itemId st) = Inr cd \<longrightarrow>
      fst (parseCompanyData engine S itemId st) = cd) \<and>
   (fst (parseContacts_try engine S itemId st) = Inl err \<longrightarrow>
      fst (parseContacts engine S itemId st) = None) \<and>
   (fst (parseContacts_try engine S itemId st) = Inr found \<longrightarrow>
      fst (parseContacts engine S itemId st) = found) \<and>
   (layer1 S = Inl err \<longrightarrow> fst (parseCompanyData_try engine S itemId st) = Inl err) \<and>
   (layer1 S = Inr c1 \<and> fst (extractWithNER engine S itemId st) = Inl err \<and>
    (falsy (companyName (layer2 S c1)) \<or> falsy (hqLocation (layer2 S c1))) \<longrightarrow>
      fst (parseCompanyData_try engine S itemId st) = Inl err) \<and>
   (S CONTACT_CARD = Inl err \<longrightarrow> fst (parseContacts_try engine S itemId st) = Inl err) \<and>
   (S CONTACT_CARD = Inr cards \<and> structuredContacts cards [] = Inr [] \<and>
    fst (extractWithNER engine S itemId st) = Inl err \<longrightarrow>
      fst (parseContacts_try engine S itemId st) = Inl err) \<and>
   (dbFault e (length (repoCalls w)) = None \<and> axiosGet e u = Inr html \<and>
    dbFault e (Suc (length (repoCalls w))) = None \<longrightarrow>
      fst (processItem e itemId u jid w) = Inr () \<and>
      (\<forall>item \<in> set (scrapingItems (db (snd (processItem e itemId u jid w)))).
          item_id item = itemId \<longrightarrow> status item = ''completed'' \<and> lastError item = None))"
proof -
  have A: "fst (parseCompanyData_try engine S itemId st) = Inl err \<longrightarrow>
      fst (parseCompanyData engine S itemId st) =
        \<lparr>companyName = None, website = None, industry = None, headcountRange = None,
         hqLocation = None\<rparr>"
    by (simp add: parseCompanyData_of_try nullCompanyData_def)
  have B: "fst (parseCompanyData_try engine S itemId st) = Inr cd \<longrightarrow>
      fst (parseCompanyData engine S itemId st) = cd"
    by (simp add: parseCompanyData_of_try)
  have C: "fst (parseContacts_try engine S itemId st) = Inl err \<longrightarrow>
      fst (parseContacts engine S itemId st) = None"
    by (simp add: parseContacts_of_try)
  have D: "fst (parseContacts_try engine S itemId st) = Inr found \<longrightarrow>
      fst (parseContacts engine S itemId st) = found"
    by (simp add: parseContacts_of_try)
  have E: "layer1 S = Inl err \<longrightarrow> fst (parseCompanyData_try engine S itemId st) = Inl err"
    by (simp add: parseCompanyData_try_def)
  have F: "layer1 S = Inr c1 \<and> fst (extractWithNER engine S itemId st) = Inl err \<and>
    (falsy (companyName (layer2 S c1)) \<or> falsy (hqLocation (layer2 S c1))) \<longrightarrow>
      fst (parseCompanyData_try engine S itemId st) = Inl err"
    by (auto simp: parseCompanyData_try_def layer3_def split: prod.splits sum.splits)
  have G: "S CONTACT_CARD = Inl err \<longrightarrow> fst (parseContacts_try engine S itemId st) = Inl err"
    by (simp add: parseContacts_try_def)
  have H: "S CONTACT_CARD = Inr cards \<and> structuredContacts cards [] = Inr [] \<and>
    fst (extractWithNER engine S itemId st) = Inl err \<longrightarrow>
      fst (parseContacts_try engine S itemId st) = Inl err"
    by (auto simp: parseContacts_try_def split: prod.splits sum.splits)
  have I: "dbFault e (length (repoCalls w)) = None \<and> axiosGet e u = Inr html \<and>
    dbFault e (Suc (length (repoCalls w))) = None \<longrightarrow>
      fst (processItem e itemId u jid w) = Inr () \<and>
      (\<forall>item \<in> set (scrapingItems (db (snd (processItem e itemId u jid w)))).
          item_id item = itemId \<longrightarrow> status item = ''completed'' \<and> lastError item = None)"
  proof (intro impI, elim conjE)
    assume h: "dbFault e (length (repoCalls w)) = None" "axiosGet e u = Inr html"
      "dbFault e (Suc (length (repoCalls w))) = None"
    have "fst (processItem e itemId u jid w) = Inr ()"
      using h by (simp add: processItem_outcome fetchHtml_def)
    moreover have "\<forall>item \<in> set (scrapingItems (db (snd (processItem e itemId u jid w)))).
          item_id item = itemId \<longrightarrow> status item = ''completed'' \<and> lastError item = None"
      unfolding processItem_success_items[OF h]
    proof (intro ballI impI)
      fix item
      let ?g = "\<lambda>item. if item_id item = itemId
                        then item\<lparr>status := ''completed'',
                                  companyName := companyName (fst (parseCompanyData (nlp e) (cheerioLoad e html) itemId (ner w))),
                                  website := website (fst (parseCompanyData (nlp e) (cheerioLoad e html) itemId (ner w))),
                                  industry := industry (fst (parseCompanyData (nlp e) (cheerioLoad e html) itemId (ner w))),
                                  headcountRange := headcountRange (fst (parseCompanyData (nlp e) (cheerioLoad e html) itemId (ner w))),
                                  hqLocation := hqLocation (fst (parseCompanyData (nlp e) (cheerioLoad e html) itemId (ner w))),
                                  contacts := fst (parseContacts (nlp e) (cheerioLoad e html) itemId
                                                     (snd (parseCompanyData (nlp e) (cheerioLoad e html) itemId (ner w)))),
                                  lastError := None\<rparr>
                        else item"
      assume m: "item \<in> set (map ?g (scrapingItems (db w)))" and i: "item_id item = itemId"
      from m obtain x where x: "item = ?g x" unfolding set_map by blast
      show "status item = ''completed'' \<and> lastError item = None"
      proof (cases "item_id x = itemId")
        case True
        with x show ?thesis by simp
      next
        case False
        with x i show ?thesis by simp
      qed
    qed
    ultimately show "fst (processItem e itemId u jid w) = Inr () \<and>
      (\<forall>item \<in> set (scrapingItems (db (snd (processItem e itemId u jid w)))).
          item_id item = itemId \<longrightarrow> status item = ''completed'' \<and> lastError item = None)"
      by blast
  qed
  from A B C D E F G H I show ?thesis by blast
qed

text \<open>The cache between tasks: \<^verbatim>\<open>processItem\<close> changes no entry of another item and
  leaves none for its own item once it has parsed, so an empty cache stays empty.\<close>

lemma extractWithNER_other_keys:
  "k \<noteq> key \<Longrightarrow> nerCache (snd (extractWithNER engine S key st)) k = nerCache st k"
  by (auto simp: extractWithNER_def Let_def split: option.splits sum.splits)

lemma parseCompanyData_other_keys:
  "k \<noteq> itemId \<Longrightarrow> nerCache (snd (parseCompanyData engine S itemId st)) k = nerCache st k"
  using extractWithNER_other_keys[of k itemId engine S st]
  by (auto simp: parseCompanyData_def parseCompanyData_try_def layer3_def
           split: prod.splits sum.splits)

lemma parseContacts_other_keys:
  "k \<noteq> itemId \<Longrightarrow> nerCache (snd (parseContacts engine S itemId st)) k = nerCache st k"
  using extractWithNER_other_keys[of k itemId engine S st]
  by (auto simp: parseContacts_def parseContacts_try_def Let_def
           split: prod.splits sum.splits)

lemma processItem_cache:
  "nerCache (ner (snd (processItem e itemId u jid w))) k = nerCache (ner w) k \<or>
   (k = itemId \<and> nerCache (ner (snd (processItem e itemId u jid w))) k = None)"
  using parseCompanyData_other_keys[of k itemId]  parseContacts_other_keys[of k itemId]
  by (auto simp: processItem_def processItem_try_def updateItemStatus_def updateJobProgress_def
        repoCall_def Let_def case_prod_beta
        split: sum.splits option.splits)

lemma processItem_keeps_cache_empty:
  "nerCache (ner w) = Map.empty \<Longrightarrow> nerCache (ner (snd (processItem e itemId u jid w))) = Map.empty"
  using processItem_cache[of e itemId u jid w] by (auto simp: fun_eq_iff)


subsection \<open>Examples of company-data extraction\<close>

lemma trim_examples:
  "trim '' Acme Corp '' = ''Acme Corp''" "trim [] = []"
  "trim ''Welcome to our site'' = ''Welcome to our site''"
  by code_simp+

lemma acme_layer1:
  "layer1 acmeDocument =
     Inr \<lparr>companyName = Some ''Acme Corp'', website = None, industry = None,
          headcountRange = None, hqLocation = None\<rparr>"
  by (simp add: layer1_def acmeDocument_def COMPANY_NAME_def COMPANY_WEBSITE_def INDUSTRY_def
        HEADCOUNT_def LOCATION_def selText_def selAttr_def textElement_def trim_examples
        orNull_def orNullOpt_def)

lemma acme_layer2:
  "layer2 acmeDocument
     \<lparr>companyName = Some ''Acme Corp'', website = None, industry = None,
      headcountRange = None, hqLocation = None\<rparr> =
     \<lparr>companyName = Some ''Acme Corp'', website = None, industry = None,
      headcountRange = None, hqLocation = None\<rparr>"
  by (simp add: layer2_def falsy_def acmeDocument_def FALLBACK_WEBSITE_def FALLBACK_INDUSTRY_def
        FALLBACK_HEADCOUNT_def FALLBACK_LOCATION_def fallbackValue_def selText_def selAttr_def
        selFirst_def)

lemma acme_extract:
  "extractWithNER otherEngine acmeDocument ''item-1'' freshNer =
     (Inr \<lparr>ner_companyName = Some ''Globex Inc'', ner_hqLocation = Some ''Springfield'',
           people = [], emails = [''info@acme.com'', ''jane@acme.com'', ''info@acme.com'']\<rparr>,
      \<lparr>nerCache = [''item-1'' \<mapsto>
          \<lparr>ner_companyName = Some ''Globex Inc'', ner_hqLocation = Some ''Springfield'',
           people = [], emails = [''info@acme.com'', ''jane@acme.com'', ''info@acme.com'']\<rparr>],
       nerCalls = 1\<rparr>)"
proof -
  have ne: "proseText \<noteq> []" by (simp add: proseText_def)
  show ?thesis
    using prose_length ne
    by (simp add: extractWithNER_def acmeDocument_def freshNer_def selText_def textElement_def
          prose_collapsed prose_emails otherEngine_def Let_def)
qed

text \<open>Witness of C5: a page with \<^verbatim>\<open>h1.company-name = " Acme Corp "\<close>, a title and
  prose. The fallback \<^verbatim>\<open>title\<close> and the recogniser's organisation would each give another
  name; the name of layer 1 stays, and only the location comes from layer 3.\<close>

theorem parseCompanyData_layer_precedence_witness:
  "layer1 acmeDocument =
     Inr \<lparr>companyName = Some ''Acme Corp'', website = None, industry = None,
          headcountRange = None, hqLocation = None\<rparr> \<and>
   acmeDocument COMPANY_NAME = Inr [textElement '' Acme Corp ''] \<and>
   trim (selText [textElement '' Acme Corp '']) = ''Acme Corp'' \<and>
   tryFallbackSelectors acmeDocument [''title''] = Some ''Welcome to our site'' \<and>
   fst (parseCompanyData_try otherEngine acmeDocument ''item-1'' freshNer) =
     Inr \<lparr>companyName = Some ''Acme Corp'', website = None, industry = None,
          headcountRange = None, hqLocation = Some ''Springfield''\<rparr> \<and>
   fst (parseCompanyData otherEngine acmeDocument ''item-1'' freshNer) =
     \<lparr>companyName = Some ''Acme Corp'', website = None, industry = None,
      headcountRange = None, hqLocation = Some ''Springfield''\<rparr>"
proof -
  have h2: "acmeDocument COMPANY_NAME = Inr [textElement '' Acme Corp '']"
    by (simp add: acmeDocument_def COMPANY_NAME_def)
  have h3: "trim (selText [textElement '' Acme Corp '']) = ''Acme Corp''"
    by (simp add: selText_def textElement_def trim_examples)
  have fb: "tryFallbackSelectors acmeDocument [''title''] = Some ''Welcome to our site''"
    by (simp add: acmeDocument_def fallbackValue_def selText_def textElement_def trim_examples)
  have t: "parseCompanyData_try otherEngine acmeDocument ''item-1'' freshNer =
     (Inr \<lparr>companyName = Some ''Acme Corp'', website = None, industry = None,
          headcountRange = None, hqLocation = Some ''Springfield''\<rparr>,
      \<lparr>nerCache = [''item-1'' \<mapsto>
          \<lparr>ner_companyName = Some ''Globex Inc'', ner_hqLocation = Some ''Springfield'',
           people = [], emails = [''info@acme.com'', ''jane@acme.com'', ''info@acme.com'']\<rparr>],
       nerCalls = 1\<rparr>)"
    by (simp add: parseCompanyData_try_def acme_layer1 acme_layer2 layer3_def falsy_def
          acme_extract)
  have k: "companyName (fst (parseCompanyData otherEngine acmeDocument ''item-1'' freshNer))
             = Some ''Acme Corp''"
    using parseCompanyData_layer_precedence
            [OF acme_layer1, of "[textElement '' Acme Corp '']" otherEngine "''item-1''" freshNer,
             THEN conjunct2, THEN conjunct2, THEN conjunct2, THEN conjunct2, THEN conjunct2,
             THEN conjunct2, THEN mp, OF t]
    by (simp add: falsy_def)
  have r: "fst (parseCompanyData otherEngine acmeDocument ''item-1'' freshNer) =
     \<lparr>companyName = Some ''Acme Corp'', website = None, industry = None,
      headcountRange = None, hqLocation = Some ''Springfield''\<rparr>"
    using t by (simp add: parseCompanyData_def)
  from acme_layer1 h2 h3 fb t r k show ?thesis
    by simp
qed

text \<open>Witness of C7: an empty body gives the empty result; the prose page gives the
  recogniser's entities and the addresses found; entity recognition runs once for company
  data when a field is missing, and not at all for contacts when a card was found.\<close>

theorem entity_recognition_trigger_and_limits_witness:
  "nerCache freshNer ''item-1'' = None \<and>
   plainDocument ''body'' = Inr [] \<and>
   length (trim (collapseSpaces (selText []))) < 50 \<and>
   fst (extractWithNER proseEngine plainDocument ''item-1'' freshNer) =
     Inr \<lparr>ner_companyName = None, ner_hqLocation = None, people = [], emails = []\<rparr> \<and>
   proseDocument ''body'' = Inr [textElement proseBody] \<and>
   50 \<le> length (trim (collapseSpaces (selText [textElement proseBody]))) \<and>
   fst (extractWithNER proseEngine proseDocument ''item-1'' freshNer) = Inr proseNer \<and>
   nerCalls (snd (parseCompanyData proseEngine proseDocument ''item-1'' freshNer)) = 1 \<and>
   nerCalls (snd (parseCompanyData otherEngine acmeDocument ''item-1'' freshNer)) = 1 \<and>
   nerCalls (snd (parseContacts proseEngine cardsDocument ''item-1'' freshNer)) = 0"
proof -
  have h1: "nerCache freshNer ''item-1'' = None" by (simp add: freshNer_def)
  have h2: "plainDocument ''body'' = Inr []" by (simp add: plainDocument_def)
  have h3: "length (trim (collapseSpaces (selText []))) < 50"
    by (simp add: selText_def trim_examples)
  have h4: "proseDocument ''body'' = Inr [textElement proseBody]"
    by (simp add: proseDocument_def)
  have h5: "50 \<le> length (trim (collapseSpaces (selText [textElement proseBody])))"
    using prose_length by (simp add: selText_def textElement_def prose_collapsed)
  have short: "fst (extractWithNER proseEngine plainDocument ''item-1'' freshNer) =
     Inr \<lparr>ner_companyName = None, ner_hqLocation = None, people = [], emails = []\<rparr>"
    using entity_recognition_trigger_and_limits
            [of proseEngine plainDocument "''item-1''" freshNer "[]"] h1 h2 h3
    by blast
  have l1: "layer1 proseDocument =
     Inr \<lparr>companyName = None, website = None, industry = None, headcountRange = None,
          hqLocation = None\<rparr>"
    by (simp add: layer1_def proseDocument_def COMPANY_NAME_def COMPANY_WEBSITE_def INDUSTRY_def
        HEADCOUNT_def LOCATION_def selText_def selAttr_def trim_examples
        orNull_def orNullOpt_def)
  have c1: "nerCalls (snd (parseCompanyData proseEngine proseDocument ''item-1'' freshNer)) = 1"
    unfolding entity_recognition_trigger_and_limits
                [of proseEngine proseDocument "''item-1''" freshNer, THEN conjunct1]
    by (simp add: l1 layer2_def falsy_def proseDocument_def FALLBACK_COMPANY_NAME_def
          fallbackValue_def selText_def selAttr_def selFirst_def freshNer_def)
  have c2: "nerCalls (snd (parseCompanyData otherEngine acmeDocument ''item-1'' freshNer)) = 1"
    unfolding entity_recognition_trigger_and_limits
                [of otherEngine acmeDocument "''item-1''" freshNer, THEN conjunct1]
    by (simp add: acme_layer1 acme_layer2 falsy_def freshNer_def)
  have sc: "structuredContacts
              [contactCard '' Jane Doe '' ''CTO'' ''jane@acme.com'', contactCard ''John Roe'' ''CFO'' []] []
            = Inr [\<lparr>name = ''Jane Doe'', title = ''CTO'', email = ''jane@acme.com''\<rparr>]"
  proof -
    have t1: "trim '' Jane Doe '' = ''Jane Doe''" "trim ''CTO'' = ''CTO''"
     "trim ''jane@acme.com'' = ''jane@acme.com''" "trim ''John Roe'' = ''John Roe''"
     "trim ''CFO'' = ''CFO''" "trim [] = []"
      by code_simp+
    show ?thesis
      by (simp add: contactOfCard_def contactCard_def CONTACT_NAME_def CONTACT_TITLE_def
            CONTACT_EMAIL_def t1 Let_def)
  qed
  have cd: "cardsDocument CONTACT_CARD =
              Inr [contactCard '' Jane Doe '' ''CTO'' ''jane@acme.com'', contactCard ''John Roe'' ''CFO'' []]"
    by (simp add: cardsDocument_def CONTACT_CARD_def)
  have c3: "nerCalls (snd (parseContacts proseEngine cardsDocument ''item-1'' freshNer)) = 0"
    unfolding entity_recognition_trigger_and_limits
                [of proseEngine cardsDocument "''item-1''" freshNer, THEN conjunct2, THEN conjunct1]
      cd sum.case sc
    by (simp add: freshNer_def)
  from h1 h2 h3 h4 h5 short prose_extract c1 c2 c3 show ?thesis
    by simp
qed

lemma broken_extract:
  "fst (extractWithNER brokenEngine acmeDocument ''item-1'' st0) = Inl (Error ''recogniser failed'')"
  if "nerCache st0 ''item-1'' = None"
proof -
  have ne: "proseText \<noteq> []" by (simp add: proseText_def)
  show ?thesis
    using prose_length ne that
    by (simp add: extractWithNER_def acmeDocument_def selText_def textElement_def
          prose_collapsed brokenEngine_def Let_def)
qed

text \<open>Witness of C8: the recogniser throws after layer 1 has found a name; the company
  data degrade to the all-null record, a throwing card selector gives null contacts, and
  the item still completes.\<close>

theorem extraction_total_at_boundary_witness:
  "layer1 acmeDocument =
     Inr \<lparr>companyName = Some ''Acme Corp'', website = None, industry = None,
          headcountRange = None, hqLocation = None\<rparr> \<and>
   fst (extractWithNER brokenEngine acmeDocument ''item-1'' freshNer)
     = Inl (Error ''recogniser failed'') \<and>
   fst (parseCompanyData_try brokenEngine acmeDocument ''item-1'' freshNer)
     = Inl (Error ''recogniser failed'') \<and>
   fst (parseCompanyData brokenEngine acmeDocument ''item-1'' freshNer) =
     \<lparr>companyName = None, website = None, industry = None, headcountRange = None,
      hqLocation = None\<rparr> \<and>
   fst (parseContacts brokenEngine brokenDocument ''item-1'' freshNer) = None \<and>
   dbFault brokenNlpEnv (length (repoCalls pendingWorld)) = None \<and>
   axiosGet brokenNlpEnv ''http://example.test/'' = Inr ''<html></html>'' \<and>
   dbFault brokenNlpEnv (Suc (length (repoCalls pendingWorld))) = None \<and>
   fst (processItem brokenNlpEnv ''item-1'' ''http://example.test/'' ''job-1'' pendingWorld)
     = Inr ()"
proof -
  have x: "fst (extractWithNER brokenEngine acmeDocument ''item-1'' freshNer)
             = Inl (Error ''recogniser failed'')"
    by (rule broken_extract) (simp add: freshNer_def)
  have l2: "falsy (hqLocation (layer2 acmeDocument
     \<lparr>companyName = Some ''Acme Corp'', website = None, industry = None,
      headcountRange = None, hqLocation = None\<rparr>))"
    by (simp add: acme_layer2 falsy_def)
  have cc: "brokenDocument CONTACT_CARD = Inl (Error ''Unmatched selector'')"
    by (simp add: brokenDocument_def)
  have h: "dbFault brokenNlpEnv (length (repoCalls pendingWorld)) = None"
     "axiosGet brokenNlpEnv ''http://example.test/'' = Inr ''<html></html>''"
     "dbFault brokenNlpEnv (Suc (length (repoCalls pendingWorld))) = None"
    by (simp_all add: brokenNlpEnv_def quietEnv_def)
  note T = extraction_total_at_boundary
      [of brokenEngine acmeDocument "''item-1''" freshNer "Error ''recogniser failed''"]
  note U = extraction_total_at_boundary
      [of brokenEngine brokenDocument "''item-1''" freshNer "Error ''Unmatched selector''"]
  have t: "fst (parseCompanyData_try brokenEngine acmeDocument ''item-1'' freshNer)
             = Inl (Error ''recogniser failed'')"
    using T acme_layer1 x l2 by blast
  have p: "fst (parseCompanyData brokenEngine acmeDocument ''item-1'' freshNer) =
     \<lparr>companyName = None, website = None, industry = None, headcountRange = None,
      hqLocation = None\<rparr>"
    using T t by blast
  have q: "fst (parseContacts brokenEngine brokenDocument ''item-1'' freshNer) = None"
    using U cc by blast
  have r: "fst (processItem brokenNlpEnv ''item-1'' ''http://example.test/'' ''job-1'' pendingWorld)
     = Inr ()"
    using extraction_total_at_boundary
            [where e = brokenNlpEnv and w = pendingWorld and u = "''http://example.test/''"
               and html = "''<html></html>''" and itemId = "''item-1''" and jid = "''job-1''"] h
    by blast
  from acme_layer1 x t p q h r show ?thesis by simp
qed


end
